theory Spec2Isabelle
  imports Complex_Main
begin

section \<open>Strings\<close>

text \<open>
  JavaScript strings are modelled as lists of characters. A JavaScript number is
  modelled as an exact \<^typ>\<open>real\<close> (or an \<^typ>\<open>int\<close> where the code floors it), so
  the rounding of double-precision arithmetic is outside the model. A date is the number
  of milliseconds since the epoch that \<^verbatim>\<open>getTime()\<close> returns.
\<close>

text \<open>\<^verbatim>\<open>s.startsWith(p)\<close>, used to model anchored matching.\<close>

fun starts_with :: "string \<Rightarrow> string \<Rightarrow> bool" where
  "starts_with s [] = True"
| "starts_with [] (p # ps) = False"
| "starts_with (c # cs) (p # ps) = (c = p \<and> starts_with cs ps)"

text \<open>\<^verbatim>\<open>s.includes(p)\<close>: \<open>p\<close> occurs in \<open>s\<close> at some position.\<close>

fun str_includes :: "string \<Rightarrow> string \<Rightarrow> bool" where
  "str_includes [] p = (p = [])"
| "str_includes (c # cs) p = (starts_with (c # cs) p \<or> str_includes cs p)"

text \<open>\<^verbatim>\<open>s.toLowerCase()\<close> on ASCII text: the letters A to Z move to a to z.\<close>

definition lower_char :: "char \<Rightarrow> char" where
  "lower_char c =
     (let n = (of_char c :: nat) in if 65 \<le> n \<and> n \<le> 90 then char_of (n + 32) else c)"

definition toLowerCase :: "string \<Rightarrow> string" where
  "toLowerCase s = map lower_char s"

text \<open>
  The regular expression of \<^verbatim>\<open>analyzeCommitMessages\<close>,
  \<^verbatim>\<open>/^(feat|fix|docs|style|refactor|test|chore|perf|ci|build|revert)(\(.+\))?:/\<close>.
  After one of the type words comes either a colon, or a parenthesised scope and a colon.
  The scope \<^verbatim>\<open>.+\<close> is one or more characters that are not line terminators; the
  matcher may stop it before any closing parenthesis that a colon follows.
\<close>

definition commit_types :: "string list" where
  "commit_types = [''feat'', ''fix'', ''docs'', ''style'', ''refactor'', ''test'',
     ''chore'', ''perf'', ''ci'', ''build'', ''revert'']"

definition line_terminator :: "char \<Rightarrow> bool" where
  "line_terminator c = (c = CHR 0x0A \<or> c = CHR 0x0D)"

text \<open>\<open>scope_rest s\<close>: \<open>s\<close> matches \<^verbatim>\<open>.*\):\<close> at its start.\<close>

fun scope_rest :: "string \<Rightarrow> bool" where
  "scope_rest [] = False"
| "scope_rest (c # cs) =
     ((c = CHR '')'' \<and> starts_with cs '':'') \<or> (\<not> line_terminator c \<and> scope_rest cs))"

text \<open>\<open>scope_colon s\<close>: \<open>s\<close> matches \<^verbatim>\<open>\(.+\):\<close> at its start.\<close>

fun scope_colon :: "string \<Rightarrow> bool" where
  "scope_colon (p # c # cs) = (p = CHR ''('' \<and> \<not> line_terminator c \<and> scope_rest cs)"
| "scope_colon _ = False"

definition after_type :: "string \<Rightarrow> bool" where
  "after_type s = (starts_with s '':'' \<or> scope_colon s)"

definition conventional :: "string \<Rightarrow> bool" where
  "conventional m =
     list_ex (\<lambda>t. starts_with m t \<and> after_type (drop (length t) m)) commit_types"

section \<open>Data fetched from the forge\<close>

text \<open>Only the fields that the analysis reads are kept.\<close>

record Repository =
  repo_full_name :: string
  repo_size :: int
  repo_created_at :: int

record Commit =
  commit_sha :: string
  commit_date :: int
  commit_message :: string

record PullRequest =
  pr_title :: "string option"
  pr_created_at :: "int option"
  pr_merged_at :: "int option"
  pr_comments :: "int option"
  pr_review_comments :: "int option"

record Issue =
  issue_title :: string

text \<open>The name of a workflow run may be \<^verbatim>\<open>null\<close>: \<open>None\<close>.\<close>

record WorkflowRun =
  run_name :: "string option"
  run_conclusion :: "string option"
  run_event :: string

record WorkflowRuns =
  workflow_runs :: "WorkflowRun list"
  total_count :: nat

record Release =
  rel_tag_name :: string
  rel_published_at :: int

record DirEntry =
  entry_name :: "string option"

text \<open>
  The payload of \<^verbatim>\<open>GET /repos/{owner}/{repo}/contents/{path}\<close>: an array for a
  directory, an object for a file. A file carries its text either base64-encoded (the
  model keeps the decoded text), or plain, or has no \<^verbatim>\<open>content\<close> key.
\<close>

datatype FileBody = Base64 string | Plain string | NoContent

datatype Contents = Listing "DirEntry list" | FileObject DirEntry FileBody

text \<open>
  A language breakdown is a JSON object from language name to byte count, kept as an
  association list that holds each key once.
\<close>

type_synonym Languages = "(string \<times> nat) list"

section \<open>Errors\<close>

text \<open>
  What the client reads of a failed request: \<^verbatim>\<open>error.status\<close>,
  \<^verbatim>\<open>error.message\<close>, \<^verbatim>\<open>error.response.data.message\<close> and the three rate-limit
  headers of \<^verbatim>\<open>error.response.headers\<close>, each \<open>None\<close> when absent. A header is kept
  as the number that \<^verbatim>\<open>parseInt\<close> reads from it.
\<close>

record ApiError =
  err_status :: "int option"
  err_message :: "string option"
  err_data_message :: "string option"
  err_ratelimit_reset :: "int option"
  err_ratelimit_limit :: "int option"
  err_ratelimit_remaining :: "int option"

text \<open>
  What a call can throw: the rate-limit error of the client, the error of a failed
  request as it came, the \<^verbatim>\<open>SyntaxError\<close> or \<^verbatim>\<open>TypeError\<close> of reading a manifest
  that is not the JSON expected, or the \<^verbatim>\<open>TypeError\<close> of calling
  \<^verbatim>\<open>toLowerCase\<close> on a workflow run's name that is \<^verbatim>\<open>null\<close>.
\<close>

datatype error =
    GitHubRateLimitError (resetTime: int) (limit: int) (remaining: int)
  | RequestError ApiError
  | ManifestError
  | TypeError

section \<open>The forge and its client\<close>

text \<open>
  What a client receives from each endpoint: the payload, or \<open>Inl\<close> with the error of a
  failed request.
\<close>

datatype IssueState = Open | Closed | All

record Forge =
  get_repo :: "ApiError + Repository"
  get_commits :: "nat \<Rightarrow> ApiError + Commit list"
  get_languages :: "ApiError + Languages"
  get_contributors :: "ApiError + string list"
  get_contents :: "string \<Rightarrow> ApiError + Contents"
  get_actions_runs :: "ApiError + WorkflowRuns"
  get_pulls :: "IssueState \<Rightarrow> nat \<Rightarrow> ApiError + PullRequest list"
  get_issues :: "IssueState \<Rightarrow> nat \<Rightarrow> ApiError + Issue list"
  get_releases :: "nat \<Rightarrow> ApiError + Release list"
  get_code_frequency :: "ApiError + int list list option"

record GitHubAuth =
  token :: "string option"
  username :: "string option"
  password :: "string option"

record GitHubService =
  hasAuth :: bool
  octokit :: Forge

text \<open>The constructor: \<^verbatim>\<open>this.hasAuth = !!auth?.token\<close>.\<close>

definition new_GitHubService :: "GitHubAuth option \<Rightarrow> Forge \<Rightarrow> GitHubService" where
  "new_GitHubService auth forge =
     \<lparr>hasAuth = (case auth of
                   None \<Rightarrow> False
                 | Some a \<Rightarrow> (case token a of None \<Rightarrow> False | Some t \<Rightarrow> t \<noteq> [])),
      octokit = forge\<rparr>"

text \<open>
  \<^verbatim>\<open>checkRateLimitError\<close> always throws; the model returns what it throws. \<open>now\<close>
  is the reading of \<^verbatim>\<open>Date.now()\<close>.
\<close>

definition message_says_rate_limit :: "string option \<Rightarrow> bool" where
  "message_says_rate_limit m =
     (case m of None \<Rightarrow> False | Some s \<Rightarrow> str_includes s ''API rate limit exceeded'')"

definition checkRateLimitError :: "int \<Rightarrow> ApiError \<Rightarrow> error" where
  "checkRateLimitError now e =
     (if err_status e = Some 403 \<and>
         (message_says_rate_limit (err_message e) \<or>
          message_says_rate_limit (err_data_message e))
      then GitHubRateLimitError
             (case err_ratelimit_reset e of Some t \<Rightarrow> t * 1000 | None \<Rightarrow> now + 3600000)
             (case err_ratelimit_limit e of Some l \<Rightarrow> l | None \<Rightarrow> 60)
             (case err_ratelimit_remaining e of Some r \<Rightarrow> r | None \<Rightarrow> 0)
      else RequestError e)"

definition getRepository :: "GitHubService \<Rightarrow> int \<Rightarrow> error + Repository" where
  "getRepository svc now =
     (case get_repo (octokit svc) of
        Inr r \<Rightarrow> Inr r
      | Inl e \<Rightarrow> Inl (checkRateLimitError now e))"

definition getCommits :: "GitHubService \<Rightarrow> nat \<Rightarrow> error + Commit list" where
  "getCommits svc count =
     (case get_commits (octokit svc) count of
        Inr cs \<Rightarrow> Inr cs
      | Inl e \<Rightarrow> Inl (RequestError e))"

definition getLanguages :: "GitHubService \<Rightarrow> error + Languages" where
  "getLanguages svc =
     (case get_languages (octokit svc) of
        Inr ls \<Rightarrow> Inr ls
      | Inl e \<Rightarrow> Inl (RequestError e))"

definition getContributors :: "GitHubService \<Rightarrow> error + string list" where
  "getContributors svc =
     (case get_contributors (octokit svc) of
        Inr cs \<Rightarrow> Inr cs
      | Inl e \<Rightarrow> Inl (RequestError e))"

definition getFileContent :: "GitHubService \<Rightarrow> string \<Rightarrow> error + string" where
  "getFileContent svc path =
     (case get_contents (octokit svc) path of
        Inr (FileObject entry (Base64 decoded)) \<Rightarrow> Inr decoded
      | Inr (FileObject entry (Plain content)) \<Rightarrow> Inr content
      | Inr (FileObject entry NoContent) \<Rightarrow> Inr []
      | Inr (Listing entries) \<Rightarrow> Inr []
      | Inl e \<Rightarrow> Inl (RequestError e))"

definition refused :: "ApiError \<Rightarrow> bool" where
  "refused e = (err_status e = Some 401 \<or> err_status e = Some 403)"

definition getWorkflowRuns :: "GitHubService \<Rightarrow> error + WorkflowRuns" where
  "getWorkflowRuns svc =
     (case get_actions_runs (octokit svc) of
        Inr d \<Rightarrow> Inr d
      | Inl e \<Rightarrow>
          if refused e \<and> \<not> hasAuth svc
          then Inr \<lparr>workflow_runs = [], total_count = 0\<rparr>
          else Inl (RequestError e))"

definition getPullRequests ::
    "GitHubService \<Rightarrow> IssueState \<Rightarrow> nat \<Rightarrow> error + PullRequest list" where
  "getPullRequests svc state count =
     (case get_pulls (octokit svc) state count of
        Inr d \<Rightarrow> Inr d
      | Inl e \<Rightarrow> if refused e \<and> \<not> hasAuth svc then Inr [] else Inl (RequestError e))"

definition getIssues :: "GitHubService \<Rightarrow> IssueState \<Rightarrow> nat \<Rightarrow> error + Issue list" where
  "getIssues svc state count =
     (case get_issues (octokit svc) state count of
        Inr d \<Rightarrow> Inr d
      | Inl e \<Rightarrow> if refused e \<and> \<not> hasAuth svc then Inr [] else Inl (RequestError e))"

definition getReleases :: "GitHubService \<Rightarrow> nat \<Rightarrow> error + Release list" where
  "getReleases svc count =
     (case get_releases (octokit svc) count of
        Inr d \<Rightarrow> Inr d
      | Inl e \<Rightarrow> Inl (RequestError e))"

text \<open>\<^verbatim>\<open>getDirectoryContents\<close> catches every error and returns the empty array.\<close>

definition getDirectoryContents :: "GitHubService \<Rightarrow> string \<Rightarrow> error + DirEntry list" where
  "getDirectoryContents svc path =
     (case get_contents (octokit svc) path of
        Inr (Listing entries) \<Rightarrow> Inr entries
      | Inr (FileObject entry body) \<Rightarrow> Inr [entry]
      | Inl e \<Rightarrow> Inr [])"

definition code_frequency_row :: "int list \<Rightarrow> int \<times> int \<times> int" where
  "code_frequency_row item =
     (case item of a # b # c # rest \<Rightarrow> (a, b, c) | _ \<Rightarrow> (0, 0, 0))"

definition getCodeFrequencyStats :: "GitHubService \<Rightarrow> error + (int \<times> int \<times> int) list" where
  "getCodeFrequencyStats svc =
     (case get_code_frequency (octokit svc) of
        Inr (Some rows) \<Rightarrow> Inr (map code_frequency_row rows)
      | Inr None \<Rightarrow> Inr []
      | Inl e \<Rightarrow> Inr [])"

section \<open>The requests of a run\<close>

text \<open>
  The analysis service issues every request on its own, so a request can fail although
  the same request succeeded before. Each request of a run is named by the method that
  issues it and by the endpoint it asks for; no two requests of a run share a name
  (\<^verbatim>\<open>calculateOutdatedDependencies\<close> asks for the repository once per manifest it reads, so
  these requests carry the manifest's path). The data of the forge does not change during
  a run: \<open>run_forge\<close> holds the forge's answers, and \<open>run_outage\<close> says which requests
  of the run fail on their way, and with which error.
\<close>

datatype Caller =
    Report | Metrics | Quality | Debt | Duplications | Coverage | Outdated
  | Manifest string | Deployment

datatype Endpoint =
    Repo | CommitList nat | LanguageMap | ContributorList | ContentsOf string | ActionRuns
  | PullList IssueState nat | IssueList IssueState nat | ReleaseList nat | CodeFrequency

record Run =
  run_auth :: "GitHubAuth option"
  run_forge :: Forge
  run_outage :: "Caller \<Rightarrow> Endpoint \<Rightarrow> ApiError option"

definition through :: "Run \<Rightarrow> Caller \<Rightarrow> Endpoint \<Rightarrow> ApiError + 'a \<Rightarrow> ApiError + 'a" where
  "through run c ep answer = (case run_outage run c ep of Some e \<Rightarrow> Inl e | None \<Rightarrow> answer)"

text \<open>The client of the run, with what the method \<open>c\<close> receives through it.\<close>

definition client :: "Run \<Rightarrow> Caller \<Rightarrow> GitHubService" where
  "client run c =
     new_GitHubService (run_auth run)
       \<lparr>get_repo = through run c Repo (get_repo (run_forge run)),
        get_commits = (\<lambda>n. through run c (CommitList n) (get_commits (run_forge run) n)),
        get_languages = through run c LanguageMap (get_languages (run_forge run)),
        get_contributors = through run c ContributorList (get_contributors (run_forge run)),
        get_contents = (\<lambda>p. through run c (ContentsOf p) (get_contents (run_forge run) p)),
        get_actions_runs = through run c ActionRuns (get_actions_runs (run_forge run)),
        get_pulls = (\<lambda>s n. through run c (PullList s n) (get_pulls (run_forge run) s n)),
        get_issues = (\<lambda>s n. through run c (IssueList s n) (get_issues (run_forge run) s n)),
        get_releases = (\<lambda>n. through run c (ReleaseList n) (get_releases (run_forge run) n)),
        get_code_frequency = through run c CodeFrequency (get_code_frequency (run_forge run))\<rparr>"

section \<open>Commit-message scoring\<close>

text \<open>The body of the \<^verbatim>\<open>forEach\<close> of \<^verbatim>\<open>analyzeCommitMessages\<close>.\<close>

definition message_step :: "real \<Rightarrow> Commit \<Rightarrow> real" where
  "message_step score c =
     (let message = commit_message c;
          s1 = (if length message > 10 then score + 2 / 10 else score);
          s2 = (if length message > 20 then s1 + 2 / 10 else s1);
          s3 = (if length message > 50 then s2 + 2 / 10 else s2);
          s4 = (if conventional message then s3 + 5 / 10 else s3)
      in if str_includes message [CHR 0x0A, CHR 0x0A] then s4 + 3 / 10 else s4)"

definition analyzeCommitMessages :: "Commit list \<Rightarrow> real" where
  "analyzeCommitMessages commits =
     (if commits = [] then 5 / 10
      else min (foldl message_step 0 commits / real (length commits)) 1)"

section \<open>Report values\<close>

record CodeMetrics =
  totalLines :: int
  codeLines :: int
  commentLines :: int
  blankLines :: int
  files :: int
  languages :: Languages

record Issues =
  critical :: int
  high :: int
  medium :: int
  low :: int

record CodeQuality =
  cq_score :: int
  cq_issues :: Issues
  cq_recommendations :: "string list"

record DebtMetrics =
  complexityScore :: real
  duplications :: real
  testCoverage :: real
  outdatedDependencies :: real

record TechnicalDebt =
  td_score :: int
  td_metrics :: DebtMetrics
  td_recommendations :: "string list"

record DeploymentMetrics =
  frequency :: real
  leadTime :: real
  changeFailureRate :: real
  meanTimeToRecover :: real
  dm_score :: int
  dm_recommendations :: "string list"

record HealthReport =
  repository :: Repository
  codeMetrics :: CodeMetrics
  codeQuality :: CodeQuality
  technicalDebt :: TechnicalDebt
  deploymentMetrics :: DeploymentMetrics
  overallScore :: int
  benchmarkScore :: int
  generatedAt :: int

section \<open>Control flow\<close>

text \<open>
  \<open>await m k\<close>: the value of \<open>m\<close> is passed on to \<open>k\<close>; a rejection leaves the
  enclosing \<^verbatim>\<open>try\<close> block at once.
\<close>

definition await :: "'e + 'a \<Rightarrow> ('a \<Rightarrow> 'e + 'b) \<Rightarrow> 'e + 'b" where
  "await m k = (case m of Inl e \<Rightarrow> Inl e | Inr x \<Rightarrow> k x)"

text \<open>\<open>push_if b r rs\<close>: \<^verbatim>\<open>if (b) rs.push(r)\<close>.\<close>

definition push_if :: "bool \<Rightarrow> string \<Rightarrow> string list \<Rightarrow> string list" where
  "push_if b r rs = (if b then rs @ [r] else rs)"

text \<open>\<^verbatim>\<open>Math.round\<close> is \<^const>\<open>round\<close>: the nearest integer, a tie going up.\<close>

text \<open>
  \<^verbatim>\<open>parseFloat(x.toFixed(2))\<close> formats the double that the run has computed. Which
  hundredth it returns near a tie depends on the rounding of that double, which the exact
  numbers of this model do not have. The runtime's function is therefore the parameter
  \<open>fix2\<close> of the estimators, and nothing is assumed of it.
\<close>

text \<open>
  \<^verbatim>\<open>Array.prototype.filter\<close> with a callback that may throw: the first throw ends it.
\<close>

fun filter_throwing :: "('a \<Rightarrow> error + bool) \<Rightarrow> 'a list \<Rightarrow> error + 'a list" where
  "filter_throwing p [] = Inr []"
| "filter_throwing p (x # xs) =
     await (p x) (\<lambda>keep.
     await (filter_throwing p xs) (\<lambda>rest.
       Inr (if keep then x # rest else rest)))"

section \<open>Helper methods of the analysis service\<close>

text \<open>\<^verbatim>\<open>calculateRepositoryAge\<close>: the age in days, rounded up.\<close>

definition calculateRepositoryAge :: "int \<Rightarrow> int \<Rightarrow> int" where
  "calculateRepositoryAge now created = \<lceil>real_of_int \<bar>now - created\<bar> / 86400000\<rceil>"

definition generateCodeQualityRecommendations :: "Issues \<Rightarrow> Commit list \<Rightarrow> string list" where
  "generateCodeQualityRecommendations issues commits =
     (let r1 = push_if (critical issues > 0)
                 ''Address critical security vulnerabilities in your codebase.'' [];
          r2 = push_if (high issues > 0)
                 ''Fix high-priority code quality issues to improve maintainability.'' r1;
          r3 = push_if (medium issues > 3)
                 ''Implement a code quality scanning tool in your CI/CD pipeline.'' r2;
          commitScore = analyzeCommitMessages commits;
          r4 = push_if (commitScore < 6 / 10)
                 ''Improve commit message quality by adopting conventional commit format.'' r3
      in if length r4 < 2
         then r4 @ [''Implement automated code reviews to catch issues early.'',
                    ''Add code quality gates to your pull request workflow.'']
         else r4)"

definition generateTechnicalDebtRecommendations :: "DebtMetrics \<Rightarrow> string list" where
  "generateTechnicalDebtRecommendations metrics =
     (let r1 = push_if (complexityScore metrics > 5 / 10)
                 ''Refactor complex code modules to improve maintainability.'' [];
          r2 = push_if (duplications metrics > 15)
                 ''Reduce code duplication by creating reusable components and utilities.'' r1;
          r3 = push_if (testCoverage metrics < 60)
                 ''Increase test coverage to at least 80% for critical code paths.'' r2;
          r4 = push_if (outdatedDependencies metrics > 3)
                 ''Update outdated dependencies to reduce security risks and technical debt.'' r3
      in if length r4 < 2
         then r4 @ [''Implement regular technical debt reviews in your development process.'',
                    ''Set up dependency scanning to identify outdated packages.'']
         else r4)"

definition calculateDeploymentScore :: "real \<Rightarrow> real \<Rightarrow> real \<Rightarrow> real \<Rightarrow> int" where
  "calculateDeploymentScore freq lead failureRate recover =
     (let frequencyScore = min (freq * 10) 30;
          leadTimeScore = max 0 (30 - lead / 2);
          failureScore = max 0 (25 - failureRate);
          recoveryScore = max 0 (15 - recover / 2)
      in \<lfloor>frequencyScore + leadTimeScore + failureScore + recoveryScore\<rfloor>)"

definition generateDeploymentRecommendations ::
    "real \<Rightarrow> real \<Rightarrow> real \<Rightarrow> real \<Rightarrow> string list" where
  "generateDeploymentRecommendations freq lead failureRate recover =
     (let r1 = push_if (freq < 1)
                 ''Increase deployment frequency by implementing continuous delivery practices.'' [];
          r2 = push_if (lead > 24)
                 ''Reduce lead time by streamlining your CI/CD pipeline and approval processes.'' r1;
          r3 = push_if (failureRate > 10)
                 ''Reduce change failure rate by implementing more comprehensive pre-deployment testing.'' r2;
          r4 = push_if (recover > 12)
                 ''Improve mean time to recovery by implementing automated rollback mechanisms.'' r3
      in if length r4 < 2
         then r4 @ [''Implement feature flags to safely deploy and test new features.'',
                    ''Adopt infrastructure as code to make deployments more reliable.'']
         else r4)"

text \<open>\<^verbatim>\<open>pr.review_comments || pr.comments\<close>: one of the two is a number other than 0.\<close>

definition truthy_count :: "int option \<Rightarrow> bool" where
  "truthy_count n = (case n of None \<Rightarrow> False | Some k \<Rightarrow> k \<noteq> 0)"

definition calculateComplexityScore :: "Commit list \<Rightarrow> PullRequest list \<Rightarrow> real" where
  "calculateComplexityScore commits pullRequests =
     (let commitQualityScore = analyzeCommitMessages commits;
          reviewScore =
            (if length pullRequests > 0
             then real (length (filter (\<lambda>pr. truthy_count (pr_review_comments pr) \<or>
                                           truthy_count (pr_comments pr)) pullRequests))
                  / real (length pullRequests)
             else 5 / 10);
          complexity = 1 - (commitQualityScore * (6 / 10) + reviewScore * (4 / 10))
      in max 0 (min 1 complexity))"

text \<open>\<^verbatim>\<open>languages.JavaScript\<close> as a condition: the key is there with a count other than 0.\<close>

definition has_language :: "Languages \<Rightarrow> string \<Rightarrow> bool" where
  "has_language langs name = (case map_of langs name of None \<Rightarrow> False | Some n \<Rightarrow> n \<noteq> 0)"

definition calculateDuplications :: "Run \<Rightarrow> int \<Rightarrow> real" where
  "calculateDuplications run now =
     (case await (getLanguages (client run Duplications)) (\<lambda>langs.
           await (getRepository (client run Duplications) now) (\<lambda>repo.
             let repoAgeInMonths =
                   real_of_int (calculateRepositoryAge now (repo_created_at repo)) / 30;
                 d1 = min repoAgeInMonths 25;
                 d2 = (if length langs > 3 then d1 + (real (length langs) - 3) * 2 else d1)
             in Inr (min d2 40)))
      of Inr d \<Rightarrow> d
       | Inl e \<Rightarrow> 15)"

definition testPatterns :: "string list" where
  "testPatterns = [''test'', ''tests'', ''__tests__'', ''spec'', ''specs'',
     ''.github/workflows'', ''jest.config'', ''vitest.config'',
     ''cypress'', ''playwright'', ''coverage'']"

text \<open>The loop of \<^verbatim>\<open>calculateTestCoverage\<close> over the root entries; the state is
  \<^verbatim>\<open>(testScore, indicators)\<close>.\<close>

definition root_entry_step :: "int \<times> int \<Rightarrow> DirEntry \<Rightarrow> int \<times> int" where
  "root_entry_step st item =
     (let name = (case entry_name item of Some n \<Rightarrow> toLowerCase n | None \<Rightarrow> [])
      in if list_ex (\<lambda>pattern. str_includes name pattern) testPatterns
         then (fst st + 15, snd st + 1) else st)"

definition manifest_mentions_tests :: "string \<Rightarrow> bool" where
  "manifest_mentions_tests packageJson =
     (str_includes packageJson [CHR 0x22, CHR ''t'', CHR ''e'', CHR ''s'', CHR ''t'', CHR 0x22] \<or>
      str_includes packageJson [CHR 0x22, CHR ''j'', CHR ''e'', CHR ''s'', CHR ''t'', CHR 0x22] \<or>
      str_includes packageJson
        [CHR 0x22, CHR ''v'', CHR ''i'', CHR ''t'', CHR ''e'', CHR ''s'', CHR ''t'', CHR 0x22] \<or>
      str_includes packageJson
        [CHR 0x22, CHR ''c'', CHR ''y'', CHR ''p'', CHR ''r'', CHR ''e'', CHR ''s'', CHR ''s'', CHR 0x22])"

definition calculateTestCoverage :: "Run \<Rightarrow> real" where
  "calculateTestCoverage run =
     (case await (getDirectoryContents (client run Coverage) []) (\<lambda>rootContents.
           await (getLanguages (client run Coverage)) (\<lambda>langs.
             let st1 = foldl root_entry_step (0, 0) rootContents;
                 st2 = (case (if has_language langs ''JavaScript'' \<or>
                                 has_language langs ''TypeScript''
                              then await (getFileContent (client run Coverage) ''package.json'')
                                     (\<lambda>packageJson.
                                     Inr (if manifest_mentions_tests packageJson
                                          then (fst st1 + 20, snd st1 + 1) else st1))
                              else Inr st1)
                        of Inr st \<Rightarrow> st | Inl e \<Rightarrow> st1);
                 st3 = (case await (getDirectoryContents (client run Coverage) ''.github/workflows'')
                              (\<lambda>workflows.
                                Inr (if length workflows > 0
                                     then (fst st2 + 10, snd st2 + 1) else st2))
                        of Inr st \<Rightarrow> st | Inl e \<Rightarrow> st2)
             in Inr (if snd st3 = 0 then 5 else min (fst st3) 95)))
      of Inr c \<Rightarrow> real_of_int c
       | Inl e \<Rightarrow> 25)"

text \<open>
  \<^verbatim>\<open>calculateOutdatedDependencies\<close> parses the manifest with \<^verbatim>\<open>JSON.parse\<close> and counts
  the keys of its \<^verbatim>\<open>dependencies\<close> and \<^verbatim>\<open>devDependencies\<close>. The library's parser is
  the parameter \<open>depCount\<close>: the number of keys, or \<open>None\<close> where parsing or counting
  throws.
\<close>

definition months_of :: "int \<Rightarrow> Repository \<Rightarrow> real" where
  "months_of now repo = real_of_int (calculateRepositoryAge now (repo_created_at repo)) / 30"

text \<open>The loop over \<^verbatim>\<open>depFiles\<close>: the first manifest that is read ends it.\<close>

fun dep_files_loop :: "Run \<Rightarrow> int \<Rightarrow> int \<Rightarrow> string list \<Rightarrow> int" where
  "dep_files_loop run now outdatedCount [] = outdatedCount"
| "dep_files_loop run now outdatedCount (file # rest) =
     (case await (getFileContent (client run (Manifest file)) file) (\<lambda>content.
           await (getRepository (client run (Manifest file)) now) (\<lambda>repo.
             Inr (outdatedCount + \<lfloor>months_of now repo / 6\<rfloor>)))
      of Inr n \<Rightarrow> n
       | Inl e \<Rightarrow> dep_files_loop run now outdatedCount rest)"

definition depFiles :: "string list" where
  "depFiles = [''Gemfile'', ''composer.json'', ''pom.xml'', ''build.gradle'', ''Cargo.toml'']"

definition calculateOutdatedDependencies ::
    "(string \<Rightarrow> nat option) \<Rightarrow> Run \<Rightarrow> int \<Rightarrow> real" where
  "calculateOutdatedDependencies depCount run now =
     (case await (getLanguages (client run Outdated)) (\<lambda>langs.
             let c0 = (0 :: int);
                 c1 = (if has_language langs ''JavaScript'' \<or> has_language langs ''TypeScript''
                       then (case await (getFileContent (client run (Manifest ''package.json''))
                                          ''package.json'') (\<lambda>packageJson.
                                   case depCount packageJson of
                                     None \<Rightarrow> Inl ManifestError
                                   | Some n \<Rightarrow>
                                       await (getRepository
                                                (client run (Manifest ''package.json'')) now)
                                         (\<lambda>repo.
                                         Inr (c0 + \<lfloor>(real n / 10) * (months_of now repo / 6)\<rfloor>)))
                             of Inr c \<Rightarrow> c | Inl e \<Rightarrow> c0)
                       else c0);
                 c2 = (if has_language langs ''Python''
                       then (case await (getFileContent (client run (Manifest ''requirements.txt''))
                                          ''requirements.txt'') (\<lambda>content.
                                   await (getRepository
                                            (client run (Manifest ''requirements.txt'')) now)
                                     (\<lambda>repo.
                                     Inr (c1 + \<lfloor>months_of now repo / 4\<rfloor>)))
                             of Inr c \<Rightarrow> c | Inl e \<Rightarrow> c1)
                       else c1);
                 c3 = dep_files_loop run now c2 depFiles
             in Inr (min c3 20))
      of Inr c \<Rightarrow> real_of_int c
       | Inl e \<Rightarrow> 2)"

text \<open>
  A workflow run whose lower-cased name mentions a deployment;
  \<^verbatim>\<open>run.name.toLowerCase()\<close> throws when the name is \<^verbatim>\<open>null\<close>.
\<close>

definition deploy_named :: "WorkflowRun \<Rightarrow> error + bool" where
  "deploy_named run =
     (case run_name run of
        None \<Rightarrow> Inl TypeError
      | Some name \<Rightarrow>
          Inr (str_includes (toLowerCase name) ''deploy'' \<or>
               str_includes (toLowerCase name) ''release'' \<or>
               str_includes (toLowerCase name) ''production''))"

text \<open>The fixed date \<^verbatim>\<open>'2020-01-01T00:00:00Z'\<close> of \<^verbatim>\<open>calculateDeploymentFrequency\<close>.\<close>

definition fixed_created_at :: int where
  "fixed_created_at = 1577836800000"

definition calculateDeploymentFrequency ::
    "int \<Rightarrow> Release list \<Rightarrow> WorkflowRuns \<Rightarrow> error + real" where
  "calculateDeploymentFrequency now releases workflowRuns =
     (let repoAgeInWeeks = real_of_int (calculateRepositoryAge now fixed_created_at) / 7
      in if repoAgeInWeeks < 1 then Inr 0
         else
           let releaseFreq = real (length releases) / repoAgeInWeeks
           in await (filter_throwing
                       (\<lambda>run. if run_conclusion run = Some ''success''
                              then deploy_named run else Inr False)
                       (workflow_runs workflowRuns)) (\<lambda>successfulRuns.
                let workflowFreq = real (length successfulRuns) / repoAgeInWeeks
                in Inr (max releaseFreq workflowFreq)))"

text \<open>The loop of \<^verbatim>\<open>calculateLeadTime\<close> over the merged pull requests; the state is
  \<^verbatim>\<open>(totalLeadTime, validSamples)\<close>.\<close>

definition lead_step :: "int \<Rightarrow> Release list \<Rightarrow> real \<times> nat \<Rightarrow> PullRequest \<Rightarrow> real \<times> nat" where
  "lead_step now releases st pr =
     (let mergeDate = (case pr_merged_at pr of Some m \<Rightarrow> m | None \<Rightarrow> now)
      in case find (\<lambda>release. rel_published_at release > mergeDate) releases of
           None \<Rightarrow> st
         | Some nextRelease \<Rightarrow>
             let leadTimeHours = real_of_int (rel_published_at nextRelease - mergeDate) / 3600000
             in if leadTimeHours > 0 \<and> leadTimeHours < 30 * 24
                then (fst st + leadTimeHours, snd st + 1) else st)"

text \<open>The \<^verbatim>\<open>reduce\<close> over the first releases: the gaps between neighbours, added up.\<close>

fun release_gaps :: "Release list \<Rightarrow> int" where
  "release_gaps (current # next # rest) =
     (rel_published_at current - rel_published_at next) + release_gaps (next # rest)"
| "release_gaps _ = 0"

definition calculateLeadTime ::
    "int \<Rightarrow> PullRequest list \<Rightarrow> Release list \<Rightarrow> Commit list \<Rightarrow> real" where
  "calculateLeadTime now pullRequests releases commits =
     (if length pullRequests = 0 \<or> length releases = 0
      then (if length commits > 1
            then let firstCommit = commit_date (last commits);
                     lastCommit = commit_date (hd commits);
                     avgTimeBetweenCommits =
                       real_of_int (lastCommit - firstCommit) / real (length commits)
                 in max 1 (avgTimeBetweenCommits / 3600000)
            else 24)
      else
        let mergedPRs = take 10 (filter (\<lambda>pr. pr_merged_at pr \<noteq> None) pullRequests);
            st = foldl (lead_step now releases) (0, 0) mergedPRs
        in if snd st > 0 then fst st / real (snd st)
           else if length releases > 1
           then let avgTimeBetweenReleases =
                      real_of_int (release_gaps (take 5 releases)) / (real (length releases) - 1)
                in max 1 (avgTimeBetweenReleases / 7200000)
           else 48)"

definition revert_message :: "Commit \<Rightarrow> bool" where
  "revert_message c =
     (str_includes (toLowerCase (commit_message c)) ''revert'' \<or>
      str_includes (toLowerCase (commit_message c)) ''rollback'' \<or>
      str_includes (toLowerCase (commit_message c)) ''hotfix'')"

definition failed_run :: "WorkflowRun \<Rightarrow> bool" where
  "failed_run run = (run_conclusion run = Some ''failure'')"

definition calculateChangeFailureRate :: "WorkflowRuns \<Rightarrow> Commit list \<Rightarrow> error + real" where
  "calculateChangeFailureRate workflowRuns commits =
     (let runs = workflow_runs workflowRuns
      in if length runs = 0
         then Inr (if length commits > 0
                   then real (length (filter revert_message commits))
                        / real (length commits) * 100
                   else 0)
         else
           await (filter_throwing
                    (\<lambda>run. await (deploy_named run) (\<lambda>named.
                             Inr (named \<or> run_event run = ''release'')))
                    runs) (\<lambda>deploymentRuns.
             Inr (if length deploymentRuns = 0
                  then real (length (filter failed_run runs)) / real (length runs) * 100
                  else real (length (filter failed_run deploymentRuns))
                       / real (length deploymentRuns) * 100)))"

definition fix_message :: "Commit \<Rightarrow> bool" where
  "fix_message c =
     (let message = toLowerCase (commit_message c)
      in str_includes message ''fix'' \<or> str_includes message ''hotfix'' \<or>
         str_includes message ''patch'' \<or> str_includes message ''urgent'' \<or>
         str_includes message ''critical'')"

text \<open>The \<^verbatim>\<open>for\<close> loop over neighbouring fix commits; the state is
  \<^verbatim>\<open>(totalRecoveryTime, recoveryInstances)\<close>.\<close>

fun recovery_loop :: "real \<times> nat \<Rightarrow> Commit list \<Rightarrow> real \<times> nat" where
  "recovery_loop st (currentFix # nextFix # rest) =
     (let timeDiff = real_of_int \<bar>commit_date currentFix - commit_date nextFix\<bar> / 3600000
      in recovery_loop
           (if timeDiff \<ge> 1 \<and> timeDiff \<le> 168 then (fst st + timeDiff, snd st + 1) else st)
           (nextFix # rest))"
| "recovery_loop st _ = st"

definition bug_fix_pr :: "PullRequest \<Rightarrow> bool" where
  "bug_fix_pr pr =
     (let title = (case pr_title pr of Some t \<Rightarrow> toLowerCase t | None \<Rightarrow> [])
      in pr_merged_at pr \<noteq> None \<and>
         (str_includes title ''fix'' \<or> str_includes title ''bug'' \<or>
          str_includes title ''hotfix'' \<or> str_includes title ''patch''))"

definition pr_open_time :: "int \<Rightarrow> int \<Rightarrow> PullRequest \<Rightarrow> int" where
  "pr_open_time now acc pr =
     (let created = (case pr_created_at pr of Some t \<Rightarrow> t | None \<Rightarrow> now);
          merged = (case pr_merged_at pr of Some t \<Rightarrow> t | None \<Rightarrow> now)
      in acc + (merged - created))"

definition calculateMeanTimeToRecover :: "int \<Rightarrow> Commit list \<Rightarrow> PullRequest list \<Rightarrow> real" where
  "calculateMeanTimeToRecover now commits pullRequests =
     (let fixCommits = filter fix_message commits
      in if length fixCommits = 0 then 12
         else
           let st = recovery_loop (0, 0) fixCommits
           in if snd st > 0 then fst st / real (snd st)
              else
                let bugFixPRs = filter bug_fix_pr pullRequests
                in if length bugFixPRs > 0
                   then let avgPRTime = real_of_int (foldl (pr_open_time now) 0 bugFixPRs)
                                        / real (length bugFixPRs)
                        in max 1 (avgPRTime / 3600000)
                   else 8)"

section \<open>The four estimators and the report\<close>

definition analyzeCodeMetrics :: "Run \<Rightarrow> int \<Rightarrow> error + CodeMetrics" where
  "analyzeCodeMetrics run now =
     await (getLanguages (client run Metrics)) (\<lambda>langs.
     await (getRepository (client run Metrics) now) (\<lambda>repo.
       let total = repo_size repo * 50;
           code = \<lfloor>real_of_int total * (75 / 100)\<rfloor>;
           comment = \<lfloor>real_of_int total * (15 / 100)\<rfloor>;
           blank = total - code - comment;
           nfiles = \<lfloor>real_of_int (repo_size repo) / 10\<rfloor>
       in Inr \<lparr>totalLines = total, codeLines = code, commentLines = comment,
               blankLines = blank, files = nfiles, languages = langs\<rparr>))"

definition analyzeCodeQuality :: "Run \<Rightarrow> error + CodeQuality" where
  "analyzeCodeQuality run =
     await (getCommits (client run Quality) 30) (\<lambda>commits.
       let commitQualityScore = analyzeCommitMessages commits;
           score = min \<lfloor>commitQualityScore * 100\<rfloor> 100;
           issues = \<lparr>critical = \<lfloor>real_of_int (100 - score) / 25\<rfloor>,
                     high = \<lfloor>real_of_int (100 - score) / 20\<rfloor>,
                     medium = \<lfloor>real_of_int (100 - score) / 10\<rfloor>,
                     low = \<lfloor>real_of_int (100 - score) / 5\<rfloor>\<rparr>;
           recommendations = generateCodeQualityRecommendations issues commits
       in Inr \<lparr>cq_score = score, cq_issues = issues, cq_recommendations = recommendations\<rparr>)"

definition analyzeTechnicalDebt ::
    "(string \<Rightarrow> nat option) \<Rightarrow> (real \<Rightarrow> real) \<Rightarrow> Run \<Rightarrow> int \<Rightarrow> error + TechnicalDebt" where
  "analyzeTechnicalDebt depCount fix2 run now =
     await (getRepository (client run Debt) now) (\<lambda>repo.
     await (getCommits (client run Debt) 100) (\<lambda>commits.
     await (getPullRequests (client run Debt) All 50) (\<lambda>pullRequests.
     await (getIssues (client run Debt) All 100) (\<lambda>issues.
       let complexity = calculateComplexityScore commits pullRequests;
           dups = calculateDuplications run now;
           coverage = calculateTestCoverage run;
           outdated = calculateOutdatedDependencies depCount run now;
           score = \<lfloor>100 - complexity * 25 - dups * (4 / 10)
                     - (100 - coverage) * (25 / 100) - outdated * 3\<rfloor>;
           recommendations = generateTechnicalDebtRecommendations
             \<lparr>complexityScore = complexity, duplications = dups,
              testCoverage = coverage, outdatedDependencies = outdated\<rparr>
       in Inr \<lparr>td_score = max 0 (min 100 score),
               td_metrics = \<lparr>complexityScore = fix2 complexity,
                              duplications = real_of_int (round dups),
                              testCoverage = real_of_int (round coverage),
                              outdatedDependencies = outdated\<rparr>,
               td_recommendations = recommendations\<rparr>))))"

definition analyzeDeploymentMetrics ::
    "(real \<Rightarrow> real) \<Rightarrow> Run \<Rightarrow> int \<Rightarrow> error + DeploymentMetrics" where
  "analyzeDeploymentMetrics fix2 run now =
     await (getWorkflowRuns (client run Deployment)) (\<lambda>workflowRuns.
     await (getReleases (client run Deployment) 50) (\<lambda>releases.
     await (getPullRequests (client run Deployment) Closed 50) (\<lambda>pullRequests.
     await (getCommits (client run Deployment) 100) (\<lambda>commits.
     await (calculateDeploymentFrequency now releases workflowRuns) (\<lambda>freq.
       let lead = calculateLeadTime now pullRequests releases commits
       in await (calculateChangeFailureRate workflowRuns commits) (\<lambda>failureRate.
            let recover = calculateMeanTimeToRecover now commits pullRequests;
                score = calculateDeploymentScore freq lead failureRate recover;
                recommendations =
                  generateDeploymentRecommendations freq lead failureRate recover
            in Inr \<lparr>frequency = fix2 freq,
                    leadTime = real_of_int (round lead),
                    changeFailureRate = real_of_int (round (failureRate * 100)) / 100,
                    meanTimeToRecover = real_of_int (round recover),
                    dm_score = score,
                    dm_recommendations = recommendations\<rparr>))))))"

text \<open>
  \<^verbatim>\<open>generateHealthReport\<close>. \<open>now\<close> is the reading of the clock and \<open>rnd\<close> the value that
  \<^verbatim>\<open>Math.random()\<close> returns, both inputs of a run. The run reads the clock several times;
  the model uses one reading for all of them.
\<close>

definition generateHealthReport ::
    "(string \<Rightarrow> nat option) \<Rightarrow> (real \<Rightarrow> real) \<Rightarrow> Run \<Rightarrow> int \<Rightarrow> real
     \<Rightarrow> error + HealthReport" where
  "generateHealthReport depCount fix2 run now rnd =
     await (getRepository (client run Report) now) (\<lambda>repo.
     await (analyzeCodeMetrics run now) (\<lambda>metrics.
     await (analyzeCodeQuality run) (\<lambda>quality.
     await (analyzeTechnicalDebt depCount fix2 run now) (\<lambda>debt.
     await (analyzeDeploymentMetrics fix2 run now) (\<lambda>deployment.
       let overall = \<lfloor>real_of_int (cq_score quality) * (3 / 10)
                       + real_of_int (td_score debt) * (4 / 10)
                       + real_of_int (dm_score deployment) * (3 / 10)\<rfloor>;
           benchmark = \<lfloor>rnd * 30\<rfloor> + 50
       in Inr \<lparr>repository = repo, codeMetrics = metrics, codeQuality = quality,
               technicalDebt = debt, deploymentMetrics = deployment,
               overallScore = overall, benchmarkScore = benchmark,
               generatedAt = now\<rparr>)))))"

section \<open>The older copy of the service\<close>

text \<open>
  The repository holds an older copy of the analysis service, whose client rethrows every
  error as it came. Its \<^verbatim>\<open>analyzeTechnicalDebt\<close> draws the test coverage and the number
  of outdated dependencies with \<^verbatim>\<open>Math.random()\<close> (\<open>rnd1\<close> and \<open>rnd2\<close> are the two
  draws), and its \<^verbatim>\<open>analyzeDeploymentMetrics\<close> divides the number of workflow runs by
  the age in weeks of the repository that it has fetched.
\<close>

definition legacy_analyzeTechnicalDebt ::
    "(real \<Rightarrow> real) \<Rightarrow> Forge \<Rightarrow> int \<Rightarrow> real \<Rightarrow> real \<Rightarrow> error + TechnicalDebt" where
  "legacy_analyzeTechnicalDebt fix2 forge now rnd1 rnd2 =
     (case get_repo forge of
        Inl e \<Rightarrow> Inl (RequestError e)
      | Inr repo \<Rightarrow>
          (case get_commits forge 30 of
             Inl e \<Rightarrow> Inl (RequestError e)
           | Inr commits \<Rightarrow>
               let complexity = 1 - analyzeCommitMessages commits;
                   repoAgeInDays = calculateRepositoryAge now (repo_created_at repo);
                   dups = min (\<lfloor>real_of_int repoAgeInDays / 30\<rfloor> * 5) 40;
                   coverage = \<lfloor>rnd1 * 60\<rfloor> + 20;
                   outdated = \<lfloor>rnd2 * 8\<rfloor>;
                   score = \<lfloor>100 - complexity * 30 - real_of_int dups * (5 / 10)
                             - (100 - real_of_int coverage) * (3 / 10)
                             - real_of_int outdated * 5\<rfloor>;
                   recommendations = generateTechnicalDebtRecommendations
                     \<lparr>complexityScore = complexity, duplications = real_of_int dups,
                      testCoverage = real_of_int coverage,
                      outdatedDependencies = real_of_int outdated\<rparr>
               in Inr \<lparr>td_score = max 0 score,
                       td_metrics = \<lparr>complexityScore = fix2 complexity,
                                      duplications = real_of_int dups,
                                      testCoverage = real_of_int coverage,
                                      outdatedDependencies = real_of_int outdated\<rparr>,
                       td_recommendations = recommendations\<rparr>))"

text \<open>The frequency of the older \<^verbatim>\<open>analyzeDeploymentMetrics\<close>, before it is formatted.\<close>

definition legacy_frequency :: "int \<Rightarrow> Repository \<Rightarrow> WorkflowRuns \<Rightarrow> real" where
  "legacy_frequency now repo workflowRuns =
     (let totalRuns = total_count workflowRuns;
          repoAgeInWeeks = real_of_int (calculateRepositoryAge now (repo_created_at repo)) / 7
      in if repoAgeInWeeks > 0 then real totalRuns / repoAgeInWeeks else 0)"

section \<open>The deployment frequency as the specification words it\<close>

text \<open>
  The specification's sentence, word for word: the frequency is the larger of the releases
  per week and the successful deploy workflow runs per week, both per week of the
  repository's age, and a run counts when its name contains "deploy", "release" or
  "production" and it concluded successfully. This definition is compared with
  \<^const>\<open>analyzeDeploymentMetrics\<close> below; it is not taken from the source.
\<close>

definition spec_deploy_related :: "WorkflowRun \<Rightarrow> bool" where
  "spec_deploy_related run =
     ((case run_name run of
         None \<Rightarrow> False
       | Some name \<Rightarrow>
           str_includes name ''deploy'' \<or> str_includes name ''release'' \<or>
           str_includes name ''production'') \<and>
      run_conclusion run = Some ''success'')"

definition spec_frequency :: "int \<Rightarrow> Repository \<Rightarrow> Release list \<Rightarrow> WorkflowRuns \<Rightarrow> real" where
  "spec_frequency now repo releases workflowRuns =
     (let weeks = real_of_int (calculateRepositoryAge now (repo_created_at repo)) / 7;
          releasesPerWeek = real (length releases) / weeks;
          successfulDeployWorkflowRunsPerWeek =
            real (length (filter spec_deploy_related (workflow_runs workflowRuns))) / weeks
      in max releasesPerWeek successfulDeployWorkflowRunsPerWeek)"

section \<open>Predicates of the statements\<close>



section \<open>Example inputs\<close>

definition demo_repo :: Repository where
  "demo_repo =
     \<lparr>repo_full_name = ''octo/demo'', repo_size = 1000, repo_created_at = 1700000000000\<rparr>"

definition demo_commits :: "Commit list" where
  "demo_commits =
     [\<lparr>commit_sha = ''b2'', commit_date = 1703000000000,
       commit_message = ''feat(api): add pagination support to the commits endpoint''\<rparr>,
      \<lparr>commit_sha = ''a1'', commit_date = 1702000000000,
       commit_message = ''fix: correct bug''\<rparr>]"

definition demo_languages :: Languages where
  "demo_languages = [(''TypeScript'', 120000), (''CSS'', 8000)]"

definition no_runs :: WorkflowRuns where
  "no_runs = \<lparr>workflow_runs = [], total_count = 0\<rparr>"

text \<open>The forge's answer for a path that does not exist, a server error, the refusal of
  an anonymous request, and the rate-limit response.\<close>

definition not_found :: ApiError where
  "not_found =
     \<lparr>err_status = Some 404, err_message = Some ''Not Found'',
      err_data_message = Some ''Not Found'', err_ratelimit_reset = None,
      err_ratelimit_limit = None, err_ratelimit_remaining = None\<rparr>"

definition server_error :: ApiError where
  "server_error =
     \<lparr>err_status = Some 500, err_message = Some ''Internal Server Error'',
      err_data_message = None, err_ratelimit_reset = None, err_ratelimit_limit = None,
      err_ratelimit_remaining = None\<rparr>"


definition rate_limited :: ApiError where
  "rate_limited =
     \<lparr>err_status = Some 403, err_message = Some ''API rate limit exceeded for 203.0.113.7.'',
      err_data_message = Some ''API rate limit exceeded for 203.0.113.7.'',
      err_ratelimit_reset = Some 1793149200, err_ratelimit_limit = Some 60,
      err_ratelimit_remaining = Some 0\<rparr>"

text \<open>A forge with a repository of two commits, without pull requests, issues,
  workflow runs, releases or files.\<close>

definition demo_forge :: Forge where
  "demo_forge =
     \<lparr>get_repo = Inr demo_repo,
      get_commits = (\<lambda>n. Inr demo_commits),
      get_languages = Inr demo_languages,
      get_contributors = Inr [''octocat''],
      get_contents = (\<lambda>path. Inl not_found),
      get_actions_runs = Inr no_runs,
      get_pulls = (\<lambda>s n. Inr []),
      get_issues = (\<lambda>s n. Inr []),
      get_releases = (\<lambda>n. Inr []),
      get_code_frequency = Inr None\<rparr>"

definition no_outage :: "Caller \<Rightarrow> Endpoint \<Rightarrow> ApiError option" where
  "no_outage c ep = None"

text \<open>A run without a credential in which every request reaches the forge.\<close>

definition demo_run :: Run where
  "demo_run = \<lparr>run_auth = None, run_forge = demo_forge, run_outage = no_outage\<rparr>"

text \<open>
  The same run, but the languages requests of \<^verbatim>\<open>calculateDuplications\<close>,
  \<^verbatim>\<open>calculateTestCoverage\<close> and \<^verbatim>\<open>calculateOutdatedDependencies\<close> fail with the server
  error; the languages request of \<^verbatim>\<open>analyzeCodeMetrics\<close> before them succeeds.
\<close>

definition faulty_outage :: "Caller \<Rightarrow> Endpoint \<Rightarrow> ApiError option" where
  "faulty_outage c ep =
     (if ep = LanguageMap \<and> (c = Duplications \<or> c = Coverage \<or> c = Outdated)
      then Some server_error else None)"

definition faulty_run :: Run where
  "faulty_run = \<lparr>run_auth = None, run_forge = demo_forge, run_outage = faulty_outage\<rparr>"

text \<open>The run for a repository without commits.\<close>

definition empty_run :: Run where
  "empty_run =
     \<lparr>run_auth = None, run_forge = demo_forge\<lparr>get_commits := (\<lambda>n. Inr [])\<rparr>,
      run_outage = no_outage\<rparr>"

definition no_manifest :: "string \<Rightarrow> nat option" where
  "no_manifest s = None"

text \<open>
  One function that the parameter \<open>fix2\<close> can be: the nearest hundredth of the exact
  number. The examples apply it to 0 and to 13 / 50, which are hundredths themselves, so
  that the runtime returns the same.
\<close>

definition exact_fix2 :: "real \<Rightarrow> real" where
  "exact_fix2 x =
     (if x < 0 then - (real_of_int (round (- x * 100)) / 100)
      else real_of_int (round (x * 100)) / 100)"

definition demo_debt_recs :: "string list" where
  "demo_debt_recs =
     [''Increase test coverage to at least 80% for critical code paths.'',
      ''Implement regular technical debt reviews in your development process.'',
      ''Set up dependency scanning to identify outdated packages.'']"

definition demo_debt :: "int \<Rightarrow> real \<Rightarrow> real \<Rightarrow> real \<Rightarrow> real \<Rightarrow> TechnicalDebt" where
  "demo_debt score complexity dups coverage outdated =
     \<lparr>td_score = score,
      td_metrics = \<lparr>complexityScore = complexity, duplications = dups,
                     testCoverage = coverage, outdatedDependencies = outdated\<rparr>,
      td_recommendations = demo_debt_recs\<rparr>"

definition demo_deployment :: "real \<Rightarrow> DeploymentMetrics" where
  "demo_deployment freq =
     \<lparr>frequency = freq, leadTime = 139, changeFailureRate = 0, meanTimeToRecover = 8,
      dm_score = 36,
      dm_recommendations =
        [''Increase deployment frequency by implementing continuous delivery practices.'',
         ''Reduce lead time by streamlining your CI/CD pipeline and approval processes.'']\<rparr>"

text \<open>The report of \<^const>\<open>demo_forge\<close>, for a clock reading, the technical debt, the
  overall score and the benchmark that go with it.\<close>

definition demo_report :: "int \<Rightarrow> TechnicalDebt \<Rightarrow> int \<Rightarrow> int \<Rightarrow> HealthReport" where
  "demo_report now debt overall bench =
     \<lparr>repository = demo_repo,
      codeMetrics =
        \<lparr>totalLines = 50000, codeLines = 37500, commentLines = 7500, blankLines = 5000,
         files = 100, languages = demo_languages\<rparr>,
      codeQuality =
        \<lparr>cq_score = 90, cq_issues = \<lparr>critical = 0, high = 0, medium = 1, low = 2\<rparr>,
         cq_recommendations =
           [''Implement automated code reviews to catch issues early.'',
            ''Add code quality gates to your pull request workflow.'']\<rparr>,
      technicalDebt = debt,
      deploymentMetrics = demo_deployment 0,
      overallScore = overall, benchmarkScore = bench, generatedAt = now\<rparr>"

text \<open>A forge that answers every request with the rate-limit response.\<close>

definition limited_forge :: Forge where
  "limited_forge =
     \<lparr>get_repo = Inl rate_limited,
      get_commits = (\<lambda>n. Inl rate_limited),
      get_languages = Inl rate_limited,
      get_contributors = Inl rate_limited,
      get_contents = (\<lambda>path. Inl rate_limited),
      get_actions_runs = Inl rate_limited,
      get_pulls = (\<lambda>s n. Inl rate_limited),
      get_issues = (\<lambda>s n. Inl rate_limited),
      get_releases = (\<lambda>n. Inl rate_limited),
      get_code_frequency = Inl rate_limited\<rparr>"



text \<open>
  A repository that is 14 days (two weeks) old at the clock reading \<open>young_clock\<close>,
  28 October 2026, with four releases and no workflow runs. The fixed date of
  \<^verbatim>\<open>calculateDeploymentFrequency\<close> is 2492 days (356 weeks) before that reading.
\<close>

definition young_clock :: int where
  "young_clock = 1793145600000"

definition young_repo :: Repository where
  "young_repo =
     \<lparr>repo_full_name = ''octo/young'', repo_size = 1000, repo_created_at = 1791936000000\<rparr>"

definition four_releases :: "Release list" where
  "four_releases =
     [\<lparr>rel_tag_name = ''v4'', rel_published_at = 1793000000000\<rparr>,
      \<lparr>rel_tag_name = ''v3'', rel_published_at = 1792700000000\<rparr>,
      \<lparr>rel_tag_name = ''v2'', rel_published_at = 1792400000000\<rparr>,
      \<lparr>rel_tag_name = ''v1'', rel_published_at = 1792100000000\<rparr>]"

definition young_run :: Run where
  "young_run =
     \<lparr>run_auth = None,
      run_forge = demo_forge\<lparr>get_repo := Inr young_repo,
                             get_releases := (\<lambda>n. Inr four_releases)\<rparr>,
      run_outage = no_outage\<rparr>"

section \<open>Evaluating the example inputs\<close>

lemmas run_defs = client_def through_def new_GitHubService_def demo_run_def faulty_run_def
  faulty_outage_def no_outage_def demo_forge_def empty_run_def young_run_def

lemmas call_defs = getRepository_def getLanguages_def getCommits_def getPullRequests_def
  getIssues_def getWorkflowRuns_def getReleases_def getFileContent_def getDirectoryContents_def

lemma demo_fetches:
  "getRepository (client demo_run c) now = Inr demo_repo"
  "getLanguages (client demo_run c) = Inr demo_languages"
  "getCommits (client demo_run c) n = Inr demo_commits"
  "getPullRequests (client demo_run c) s n = Inr []"
  "getIssues (client demo_run c) s n = Inr []"
  "getWorkflowRuns (client demo_run c) = Inr no_runs"
  "getReleases (client demo_run c) n = Inr []"
  "getFileContent (client demo_run c) p = Inl (RequestError not_found)"
  "getDirectoryContents (client demo_run c) p = Inr []"
  by (simp_all add: run_defs call_defs)

lemma faulty_fetches:
  "getRepository (client faulty_run c) now = Inr demo_repo"
  "getLanguages (client faulty_run Metrics) = Inr demo_languages"
  "getLanguages (client faulty_run Duplications) = Inl (RequestError server_error)"
  "getLanguages (client faulty_run Coverage) = Inl (RequestError server_error)"
  "getLanguages (client faulty_run Outdated) = Inl (RequestError server_error)"
  "getCommits (client faulty_run c) n = Inr demo_commits"
  "getPullRequests (client faulty_run c) s n = Inr []"
  "getIssues (client faulty_run c) s n = Inr []"
  "getWorkflowRuns (client faulty_run c) = Inr no_runs"
  "getReleases (client faulty_run c) n = Inr []"
  "getDirectoryContents (client faulty_run c) p = Inr []"
  by (simp_all add: run_defs call_defs)

lemma demo_commit_score: "analyzeCommitMessages demo_commits = 9 / 10"
  by code_simp

lemma demo_metrics:
  "analyzeCodeMetrics demo_run now =
     Inr \<lparr>totalLines = 50000, codeLines = 37500, commentLines = 7500, blankLines = 5000,
          files = 100, languages = demo_languages\<rparr>"
  "analyzeCodeMetrics faulty_run now =
     Inr \<lparr>totalLines = 50000, codeLines = 37500, commentLines = 7500, blankLines = 5000,
          files = 100, languages = demo_languages\<rparr>"
  by (simp_all add: analyzeCodeMetrics_def await_def demo_fetches faulty_fetches demo_repo_def
      Let_def)

lemma demo_quality:
  "analyzeCodeQuality demo_run =
     Inr \<lparr>cq_score = 90, cq_issues = \<lparr>critical = 0, high = 0, medium = 1, low = 2\<rparr>,
          cq_recommendations =
            [''Implement automated code reviews to catch issues early.'',
             ''Add code quality gates to your pull request workflow.'']\<rparr>"
  "analyzeCodeQuality faulty_run =
     Inr \<lparr>cq_score = 90, cq_issues = \<lparr>critical = 0, high = 0, medium = 1, low = 2\<rparr>,
          cq_recommendations =
            [''Implement automated code reviews to catch issues early.'',
             ''Add code quality gates to your pull request workflow.'']\<rparr>"
  by (simp_all add: analyzeCodeQuality_def await_def demo_fetches faulty_fetches
      demo_commit_score Let_def generateCodeQualityRecommendations_def push_if_def)

lemma demo_complexity: "calculateComplexityScore demo_commits [] = 13 / 50"
  by (simp add: calculateComplexityScore_def demo_commit_score Let_def)

lemma demo_age:
  "calculateRepositoryAge 1703801599000 (repo_created_at demo_repo) = 44"
  "calculateRepositoryAge 1703801600000 (repo_created_at demo_repo) = 44"
  "calculateRepositoryAge 1703801600001 (repo_created_at demo_repo) = 45"
  by (simp_all add: calculateRepositoryAge_def demo_repo_def)

lemma demo_duplications:
  "calculateRepositoryAge now (repo_created_at demo_repo) = 44 \<Longrightarrow>
     calculateDuplications demo_run now = 22 / 15"
  "calculateRepositoryAge now (repo_created_at demo_repo) = 45 \<Longrightarrow>
     calculateDuplications demo_run now = 3 / 2"
  "calculateDuplications faulty_run now = 15"
  by (simp_all add: calculateDuplications_def await_def demo_fetches faulty_fetches
      demo_languages_def Let_def)

lemma demo_coverage: "calculateTestCoverage demo_run = 5" "calculateTestCoverage faulty_run = 25"
  by (simp_all add: calculateTestCoverage_def await_def demo_fetches faulty_fetches
      demo_languages_def has_language_def Let_def)

lemma demo_dep_files: "dep_files_loop demo_run now c fs = c"
  by (induction fs) (simp_all add: await_def demo_fetches)

lemma demo_outdated:
  "calculateOutdatedDependencies no_manifest demo_run now = 0"
  "calculateOutdatedDependencies depCount faulty_run now = 2"
  by (simp_all add: calculateOutdatedDependencies_def await_def demo_fetches faulty_fetches
      demo_dep_files Let_def)

lemma demo_debt_recs_eq:
  "generateTechnicalDebtRecommendations
     \<lparr>complexityScore = 13 / 50, duplications = 22 / 15, testCoverage = 5,
      outdatedDependencies = 0\<rparr> = demo_debt_recs"
  "generateTechnicalDebtRecommendations
     \<lparr>complexityScore = 13 / 50, duplications = 3 / 2, testCoverage = 5,
      outdatedDependencies = 0\<rparr> = demo_debt_recs"
  "generateTechnicalDebtRecommendations
     \<lparr>complexityScore = 13 / 50, duplications = 15, testCoverage = 25,
      outdatedDependencies = 2\<rparr> = demo_debt_recs"
  by (simp_all add: generateTechnicalDebtRecommendations_def push_if_def demo_debt_recs_def)

lemma demo_round:
  "round (22 / 15 :: real) = 1" "round (3 / 2 :: real) = 2" "round (5 :: real) = 5"
  "round (15 :: real) = 15" "round (25 :: real) = 25"
  by (simp_all add: round_def)

lemma demo_debt_44:
  "calculateRepositoryAge now (repo_created_at demo_repo) = 44 \<Longrightarrow>
   analyzeTechnicalDebt no_manifest fix2 demo_run now =
     Inr (demo_debt 69 (fix2 (13 / 50)) 1 5 0)"
  by (simp add: analyzeTechnicalDebt_def await_def demo_fetches demo_complexity
      demo_duplications demo_coverage demo_outdated demo_debt_recs_eq demo_round Let_def
      demo_debt_def)

lemma demo_debt_45:
  "calculateRepositoryAge now (repo_created_at demo_repo) = 45 \<Longrightarrow>
   analyzeTechnicalDebt no_manifest fix2 demo_run now =
     Inr (demo_debt 69 (fix2 (13 / 50)) 2 5 0)"
  by (simp add: analyzeTechnicalDebt_def await_def demo_fetches demo_complexity
      demo_duplications demo_coverage demo_outdated demo_debt_recs_eq demo_round Let_def
      demo_debt_def)


lemma demo_lead: "calculateLeadTime now [] rels demo_commits = 1250 / 9"
  by (simp add: calculateLeadTime_def demo_commits_def Let_def)

lemma demo_failure: "calculateChangeFailureRate no_runs demo_commits = Inr 0"
  by code_simp

lemma demo_fix_commits: "filter fix_message demo_commits = [demo_commits ! 1]"
  by code_simp

lemma demo_recover: "calculateMeanTimeToRecover now demo_commits [] = 8"
  by (simp add: calculateMeanTimeToRecover_def demo_fix_commits Let_def)

lemma demo_frequency: "calculateDeploymentFrequency now [] no_runs = Inr 0"
  by (simp add: calculateDeploymentFrequency_def no_runs_def await_def Let_def)

lemma demo_deployment_eq:
  "analyzeDeploymentMetrics fix2 demo_run now = Inr (demo_deployment (fix2 0))"
  "analyzeDeploymentMetrics fix2 faulty_run now = Inr (demo_deployment (fix2 0))"
  by (simp_all add: analyzeDeploymentMetrics_def await_def demo_fetches faulty_fetches
      demo_frequency demo_lead demo_failure demo_recover Let_def round_def
      calculateDeploymentScore_def generateDeploymentRecommendations_def push_if_def
      demo_deployment_def)

lemma exact_fix2_values: "exact_fix2 0 = 0" "exact_fix2 (13 / 50) = 13 / 50"
  by (simp_all add: exact_fix2_def round_def)

lemma demo_report_44:
  "calculateRepositoryAge now (repo_created_at demo_repo) = 44 \<Longrightarrow>
   generateHealthReport no_manifest exact_fix2 demo_run now rnd =
     Inr (demo_report now (demo_debt 69 (13 / 50) 1 5 0) 65 (\<lfloor>rnd * 30\<rfloor> + 50))"
  by (simp add: generateHealthReport_def await_def demo_fetches demo_metrics demo_quality
      demo_debt_44 demo_deployment_eq demo_report_def demo_deployment_def demo_debt_def
      exact_fix2_values Let_def)

lemma demo_report_45:
  "calculateRepositoryAge now (repo_created_at demo_repo) = 45 \<Longrightarrow>
   generateHealthReport no_manifest exact_fix2 demo_run now rnd =
     Inr (demo_report now (demo_debt 69 (13 / 50) 2 5 0) 65 (\<lfloor>rnd * 30\<rfloor> + 50))"
  by (simp add: generateHealthReport_def await_def demo_fetches demo_metrics demo_quality
      demo_debt_45 demo_deployment_eq demo_report_def demo_deployment_def demo_debt_def
      exact_fix2_values Let_def)

lemma demo_report_now:
  "generateHealthReport no_manifest exact_fix2 demo_run 1703801600000 (1 / 2) =
     Inr (demo_report 1703801600000 (demo_debt 69 (13 / 50) 1 5 0) 65 65)"
  using demo_report_44 [OF demo_age(2), of "1 / 2"] by simp


lemma young_fetches:
  "getRepository (client young_run c) now = Inr young_repo"
  "getWorkflowRuns (client young_run c) = Inr no_runs"
  "getReleases (client young_run c) n = Inr four_releases"
  "getPullRequests (client young_run c) s n = Inr []"
  "getCommits (client young_run c) n = Inr demo_commits"
  by (simp_all add: run_defs call_defs)

lemma young_age: "calculateRepositoryAge young_clock (repo_created_at young_repo) = 14"
  by (simp add: calculateRepositoryAge_def young_clock_def young_repo_def)

lemma young_frequency:
  "calculateDeploymentFrequency young_clock four_releases no_runs = Inr (1 / 89)"
  by (simp add: calculateDeploymentFrequency_def calculateRepositoryAge_def young_clock_def
      fixed_created_at_def four_releases_def no_runs_def await_def Let_def)

lemma young_spec_frequency:
  "spec_frequency young_clock young_repo four_releases no_runs = 2"
  by (simp add: spec_frequency_def young_age four_releases_def no_runs_def Let_def)

lemma young_deployment_eq:
  "analyzeDeploymentMetrics fix2 young_run young_clock = Inr (demo_deployment (fix2 (1 / 89)))"
  by (simp add: analyzeDeploymentMetrics_def await_def young_fetches young_frequency
      demo_lead demo_failure demo_recover Let_def round_def
      calculateDeploymentScore_def generateDeploymentRecommendations_def push_if_def
      demo_deployment_def)

section \<open>Commit-message scores\<close>

lemma message_step_shift: "message_step s c = s + message_step 0 c"
  by (simp add: message_step_def Let_def)

lemma message_step_nonneg: "0 \<le> message_step 0 c"
  by (simp add: message_step_def Let_def)

lemma foldl_message_step: "foldl message_step s cs = s + sum_list (map (message_step 0) cs)"
proof (induction cs arbitrary: s)
  case Nil
  show ?case by simp
next
  case (Cons c cs)
  have "foldl message_step s (c # cs) = foldl message_step (message_step s c) cs" by simp
  also have "\<dots> = message_step s c + sum_list (map (message_step 0) cs)" by (rule Cons.IH)
  also have "\<dots> = s + sum_list (map (message_step 0) (c # cs))"
    using message_step_shift [of s c] by simp
  finally show ?case .
qed

lemma sum_points_nonneg: "0 \<le> sum_list (map (message_step 0) cs)"
  by (rule sum_list_nonneg) (auto simp: message_step_nonneg)

lemma analyzeCommitMessages_range:
  "0 \<le> analyzeCommitMessages cs \<and> analyzeCommitMessages cs \<le> 1"
proof (cases "cs = []")
  case True
  then show ?thesis by (simp add: analyzeCommitMessages_def)
next
  case False
  have "0 \<le> foldl message_step 0 cs / real (length cs)"
    using sum_points_nonneg [of cs] by (simp add: foldl_message_step)
  with False show ?thesis by (simp add: analyzeCommitMessages_def)
qed

lemma empty_message_points: "commit_message c = [] \<Longrightarrow> message_step 0 c = 0"
  by (simp add: message_step_def Let_def conventional_def commit_types_def)

lemma long_conventional_points:
  "conventional (commit_message c) \<Longrightarrow> length (commit_message c) > 50
   \<Longrightarrow> 11 / 10 \<le> message_step 0 c"
  by (simp add: message_step_def Let_def)

lemma sum_list_lower:
  fixes f :: "'a \<Rightarrow> real"
  shows "(\<And>x. x \<in> set xs \<Longrightarrow> b \<le> f x) \<Longrightarrow> b * real (length xs) \<le> sum_list (map f xs)"
proof (induction xs)
  case Nil
  show ?case by simp
next
  case (Cons a xs)
  have "b \<le> f a" using Cons.prems by simp
  moreover have "b * real (length xs) \<le> sum_list (map f xs)"
    using Cons.IH Cons.prems by simp
  ultimately show ?case by (simp add: algebra_simps)
qed

text \<open>
  C8. A non-empty list of commits whose messages all match the conventional-commit
  pattern and are longer than 50 characters scores strictly higher than the same list
  with every message replaced by the empty string.
\<close>

theorem commit_scoring_monotonic:
  assumes "commits \<noteq> []"
    and "\<forall>c \<in> set commits. conventional (commit_message c) \<and> length (commit_message c) > 50"
  shows "analyzeCommitMessages (map (\<lambda>c. c\<lparr>commit_message := []\<rparr>) commits)
         < analyzeCommitMessages commits"
proof -
  let ?n = "real (length commits)"
  have n: "0 < ?n" using assms(1) by simp
  have "sum_list (map (message_step 0) (map (\<lambda>c. c\<lparr>commit_message := []\<rparr>) commits)) = 0"
    by (induction commits) (simp_all add: empty_message_points)
  then have lo: "analyzeCommitMessages (map (\<lambda>c. c\<lparr>commit_message := []\<rparr>) commits) = 0"
    using assms(1) by (simp add: analyzeCommitMessages_def foldl_message_step)
  have "(11 / 10) * ?n \<le> sum_list (map (message_step 0) commits)"
  proof (rule sum_list_lower)
    fix x assume "x \<in> set commits"
    with assms(2) show "11 / 10 \<le> message_step 0 x"
      using long_conventional_points [of x] by blast
  qed
  then have "1 * ?n \<le> sum_list (map (message_step 0) commits)" using n by linarith
  then have "1 \<le> sum_list (map (message_step 0) commits) / ?n"
    using n by (simp add: pos_le_divide_eq)
  then have hi: "analyzeCommitMessages commits = 1"
    using assms(1) by (simp add: analyzeCommitMessages_def foldl_message_step)
  show ?thesis using lo hi by simp
qed

lemma long_commit_facts:
  "conventional ''feat(api): add pagination support to the commits endpoint''"
  "length ''feat(api): add pagination support to the commits endpoint'' = 57"
  by (simp_all add: conventional_def commit_types_def after_type_def line_terminator_def)

theorem commit_scoring_monotonic_witness:
  "[hd demo_commits] \<noteq> [] \<and>
   conventional (commit_message (hd demo_commits)) \<and>
   length (commit_message (hd demo_commits)) > 50 \<and>
   analyzeCommitMessages [(hd demo_commits)\<lparr>commit_message := []\<rparr>]
     < analyzeCommitMessages [hd demo_commits]"
proof -
  have c: "conventional (commit_message (hd demo_commits))"
          "length (commit_message (hd demo_commits)) > 50"
    by (simp_all add: demo_commits_def long_commit_facts)
  then have "\<forall>c \<in> set [hd demo_commits].
      conventional (commit_message c) \<and> length (commit_message c) > 50"
    by simp
  from commit_scoring_monotonic [OF _ this] c show ?thesis by simp
qed

section \<open>Code quality of a repository without commits\<close>

text \<open>
  C9. When the commit fetch returns the empty list, \<^const>\<open>analyzeCommitMessages\<close>
  returns one half, and \<^const>\<open>analyzeCodeQuality\<close> returns the score 50 with the
  issue counts 2, 2, 5 and 10.
\<close>

theorem empty_commits_quality:
  assumes "getCommits (client run Quality) 30 = Inr []"
  shows "analyzeCommitMessages [] = 5 / 10 \<and>
         (\<exists>q. analyzeCodeQuality run = Inr q \<and> cq_score q = 50 \<and>
              cq_issues q = \<lparr>critical = 2, high = 2, medium = 5, low = 10\<rparr>)"
  using assms by (simp add: analyzeCodeQuality_def await_def analyzeCommitMessages_def Let_def)

theorem empty_commits_quality_witness:
  "getCommits (client empty_run Quality) 30 = Inr [] \<and>
   analyzeCommitMessages [] = 5 / 10 \<and>
   (\<exists>q. analyzeCodeQuality empty_run = Inr q \<and> cq_score q = 50 \<and>
        cq_issues q = \<lparr>critical = 2, high = 2, medium = 5, low = 10\<rparr>)"
proof -
  have h: "getCommits (client empty_run Quality) 30 = Inr []"
    by (simp add: run_defs call_defs)
  show ?thesis using h empty_commits_quality [OF h] by simp
qed

section \<open>Code metrics\<close>

text \<open>
  C6. Whenever the languages and the repository are fetched, \<^const>\<open>analyzeCodeMetrics\<close>
  returns \<open>totalLines = size * 50\<close>, \<open>codeLines = \<lfloor>0.75 * totalLines\<rfloor>\<close>,
  \<open>commentLines = \<lfloor>0.15 * totalLines\<rfloor>\<close>, \<open>files = \<lfloor>size / 10\<rfloor>\<close>, and the code,
  comment and blank lines add up to the total.
\<close>

theorem code_metrics_formulas:
  assumes "getLanguages (client run Metrics) = Inr langs"
    and "getRepository (client run Metrics) now = Inr repo"
  shows "\<exists>m. analyzeCodeMetrics run now = Inr m \<and>
           totalLines m = repo_size repo * 50 \<and>
           codeLines m = \<lfloor>(75 / 100) * real_of_int (totalLines m)\<rfloor> \<and>
           commentLines m = \<lfloor>(15 / 100) * real_of_int (totalLines m)\<rfloor> \<and>
           files m = \<lfloor>real_of_int (repo_size repo) / 10\<rfloor> \<and>
           codeLines m + commentLines m + blankLines m = totalLines m \<and>
           languages m = langs"
  using assms by (simp add: analyzeCodeMetrics_def await_def Let_def mult.commute)

theorem code_metrics_formulas_witness:
  "getLanguages (client demo_run Metrics) = Inr demo_languages \<and>
   getRepository (client demo_run Metrics) 1703801600000 = Inr demo_repo \<and>
   (\<exists>m. analyzeCodeMetrics demo_run 1703801600000 = Inr m \<and>
        totalLines m = 50000 \<and> codeLines m = 37500 \<and> commentLines m = 7500 \<and>
        files m = 100 \<and> codeLines m + commentLines m + blankLines m = totalLines m)"
proof -
  have l: "getLanguages (client demo_run Metrics) = Inr demo_languages"
    and r: "getRepository (client demo_run Metrics) 1703801600000 = Inr demo_repo"
    by (simp_all add: demo_fetches)
  from code_metrics_formulas [OF l r] obtain m where
    m: "analyzeCodeMetrics demo_run 1703801600000 = Inr m"
       "totalLines m = repo_size demo_repo * 50"
       "codeLines m = \<lfloor>(75 / 100) * real_of_int (totalLines m)\<rfloor>"
       "commentLines m = \<lfloor>(15 / 100) * real_of_int (totalLines m)\<rfloor>"
       "files m = \<lfloor>real_of_int (repo_size demo_repo) / 10\<rfloor>"
       "codeLines m + commentLines m + blankLines m = totalLines m"
    by blast
  have t: "totalLines m = 50000" using m(2) by (simp add: demo_repo_def)
  have "codeLines m = 37500" "commentLines m = 7500" "files m = 100"
    using m(3,4,5) by (simp_all add: t demo_repo_def)
  with l r m(1) m(6) t show ?thesis by simp
qed

section \<open>Recommendations\<close>

lemma quality_recommendations_length: "2 \<le> length (generateCodeQualityRecommendations i cs)"
  by (simp add: generateCodeQualityRecommendations_def push_if_def Let_def)

lemma debt_recommendations_length: "2 \<le> length (generateTechnicalDebtRecommendations m)"
  by (simp add: generateTechnicalDebtRecommendations_def push_if_def Let_def)

lemma deployment_recommendations_length:
  "2 \<le> length (generateDeploymentRecommendations f l c m)"
  by (simp add: generateDeploymentRecommendations_def push_if_def Let_def)

lemma report_parts:
  assumes "generateHealthReport depCount fix2 run now rnd = Inr r"
  shows "analyzeCodeMetrics run now = Inr (codeMetrics r)"
    and "analyzeCodeQuality run = Inr (codeQuality r)"
    and "analyzeTechnicalDebt depCount fix2 run now = Inr (technicalDebt r)"
    and "analyzeDeploymentMetrics fix2 run now = Inr (deploymentMetrics r)"
    and "getRepository (client run Report) now = Inr (repository r)"
    and "overallScore r = \<lfloor>real_of_int (cq_score (codeQuality r)) * (3 / 10)
                       + real_of_int (td_score (technicalDebt r)) * (4 / 10)
                       + real_of_int (dm_score (deploymentMetrics r)) * (3 / 10)\<rfloor>"
  using assms
  by (auto simp: generateHealthReport_def await_def Let_def split: sum.splits)

lemma deployment_parts:
  assumes "analyzeDeploymentMetrics fix2 run now = Inr d"
  shows "\<exists>wr rels prs cs freq rate.
           getWorkflowRuns (client run Deployment) = Inr wr \<and>
           getReleases (client run Deployment) 50 = Inr rels \<and>
           getPullRequests (client run Deployment) Closed 50 = Inr prs \<and>
           getCommits (client run Deployment) 100 = Inr cs \<and>
           calculateDeploymentFrequency now rels wr = Inr freq \<and>
           calculateChangeFailureRate wr cs = Inr rate \<and>
           frequency d = fix2 freq \<and>
           dm_score d = calculateDeploymentScore freq (calculateLeadTime now prs rels cs) rate
                          (calculateMeanTimeToRecover now cs prs) \<and>
           dm_recommendations d =
             generateDeploymentRecommendations freq (calculateLeadTime now prs rels cs) rate
               (calculateMeanTimeToRecover now cs prs)"
  using assms
  by (auto simp: analyzeDeploymentMetrics_def await_def Let_def split: sum.splits)

lemma quality_recommendations_of:
  "analyzeCodeQuality run = Inr q \<Longrightarrow> 2 \<le> length (cq_recommendations q)"
  by (auto simp: analyzeCodeQuality_def await_def Let_def quality_recommendations_length
      split: sum.splits)

lemma debt_recommendations_of:
  "analyzeTechnicalDebt depCount fix2 run now = Inr d \<Longrightarrow> 2 \<le> length (td_recommendations d)"
  by (auto simp: analyzeTechnicalDebt_def await_def Let_def debt_recommendations_length
      split: sum.splits)

lemma deployment_recommendations_of:
  "analyzeDeploymentMetrics fix2 run now = Inr d \<Longrightarrow> 2 \<le> length (dm_recommendations d)"
  using deployment_parts [of fix2 run now d]
  by (auto simp: deployment_recommendations_length)

text \<open>
  C10. Each of the three recommendation generators returns at least two entries for
  every input, so each of the three recommendation lists of a report has at least two
  entries, whatever the scores are.
\<close>

theorem recommendations_at_least_two:
  "2 \<le> length (generateCodeQualityRecommendations issues commits) \<and>
   2 \<le> length (generateTechnicalDebtRecommendations metrics) \<and>
   2 \<le> length (generateDeploymentRecommendations freq lead failureRate recover) \<and>
   (generateHealthReport depCount fix2 run now rnd = Inr r \<longrightarrow>
      2 \<le> length (cq_recommendations (codeQuality r)) \<and>
      2 \<le> length (td_recommendations (technicalDebt r)) \<and>
      2 \<le> length (dm_recommendations (deploymentMetrics r)))"
proof -
  have "2 \<le> length (cq_recommendations (codeQuality r)) \<and>
        2 \<le> length (td_recommendations (technicalDebt r)) \<and>
        2 \<le> length (dm_recommendations (deploymentMetrics r))"
    if g: "generateHealthReport depCount fix2 run now rnd = Inr r"
    using quality_recommendations_of [OF report_parts(2) [OF g]]
      debt_recommendations_of [OF report_parts(3) [OF g]]
      deployment_recommendations_of [OF report_parts(4) [OF g]]
    by simp
  then show ?thesis
    using quality_recommendations_length debt_recommendations_length
      deployment_recommendations_length
    by blast
qed

theorem recommendations_at_least_two_witness:
  "generateHealthReport no_manifest exact_fix2 demo_run 1703801600000 (1 / 2)
     = Inr (demo_report 1703801600000 (demo_debt 69 (13 / 50) 1 5 0) 65 65) \<and>
   length (cq_recommendations
     (codeQuality (demo_report 1703801600000 (demo_debt 69 (13 / 50) 1 5 0) 65 65))) = 2 \<and>
   length (td_recommendations
     (technicalDebt (demo_report 1703801600000 (demo_debt 69 (13 / 50) 1 5 0) 65 65))) = 3 \<and>
   length (dm_recommendations
     (deploymentMetrics (demo_report 1703801600000 (demo_debt 69 (13 / 50) 1 5 0) 65 65))) = 2 \<and>
   2 \<le> length (cq_recommendations
     (codeQuality (demo_report 1703801600000 (demo_debt 69 (13 / 50) 1 5 0) 65 65))) \<and>
   2 \<le> length (td_recommendations
     (technicalDebt (demo_report 1703801600000 (demo_debt 69 (13 / 50) 1 5 0) 65 65))) \<and>
   2 \<le> length (dm_recommendations
     (deploymentMetrics (demo_report 1703801600000 (demo_debt 69 (13 / 50) 1 5 0) 65 65)))"
  using demo_report_now
    recommendations_at_least_two [of _ _ _ _ _ _ _ no_manifest exact_fix2 demo_run
      1703801600000 "1 / 2" "demo_report 1703801600000 (demo_debt 69 (13 / 50) 1 5 0) 65 65"]
  by (simp add: demo_report_def demo_debt_def demo_debt_recs_def demo_deployment_def)

section \<open>Ranges of the scores\<close>

lemma frequency_nonneg: "calculateDeploymentFrequency now rels wr = Inr f \<Longrightarrow> 0 \<le> f"
  by (auto simp: calculateDeploymentFrequency_def Let_def max_def await_def
      split: if_splits sum.splits)

lemma failureRate_nonneg: "calculateChangeFailureRate wr cs = Inr c \<Longrightarrow> 0 \<le> c"
  by (auto simp: calculateChangeFailureRate_def Let_def await_def split: if_splits sum.splits)

lemma lead_step_nonneg: "0 \<le> fst st \<Longrightarrow> 0 \<le> fst (lead_step now rels st pr)"
  by (simp add: lead_step_def Let_def split: option.splits)

lemma foldl_lead_step_nonneg:
  "0 \<le> fst st \<Longrightarrow> 0 \<le> fst (foldl (lead_step now rels) st prs)"
  by (induction prs arbitrary: st) (simp_all add: lead_step_nonneg)

lemma leadTime_nonneg: "0 \<le> calculateLeadTime now prs rels cs"
proof -
  have "0 \<le> fst (foldl (lead_step now rels) (0, 0)
                 (take 10 (filter (\<lambda>pr. pr_merged_at pr \<noteq> None) prs)))"
    by (rule foldl_lead_step_nonneg) simp
  then show ?thesis
    by (simp add: calculateLeadTime_def Let_def le_max_iff_disj del: filter_True)
qed

lemma recovery_loop_nonneg: "0 \<le> fst st \<Longrightarrow> 0 \<le> fst (recovery_loop st cs)"
proof (induction st cs rule: recovery_loop.induct)
  case (1 st currentFix nextFix rest)
  let ?d = "real_of_int \<bar>commit_date currentFix - commit_date nextFix\<bar> / 3600000"
  let ?st = "if ?d \<ge> 1 \<and> ?d \<le> 168 then (fst st + ?d, snd st + 1) else st"
  have "0 \<le> ?d" by simp
  with "1.prems" have "0 \<le> fst ?st" by (simp del: of_int_abs)
  then have "0 \<le> fst (recovery_loop ?st (nextFix # rest))"
    by (rule "1.IH" [OF refl])
  then show ?case by (simp only: recovery_loop.simps Let_def)
qed simp_all

lemma recover_nonneg: "0 \<le> calculateMeanTimeToRecover now cs prs"
proof -
  have "0 \<le> fst (recovery_loop (0, 0) (filter fix_message cs))"
    by (rule recovery_loop_nonneg) simp
  then show ?thesis
    by (simp add: calculateMeanTimeToRecover_def Let_def le_max_iff_disj)
qed

lemma deployment_score_range:
  assumes "0 \<le> f" "0 \<le> l" "0 \<le> c" "0 \<le> m"
  shows "0 \<le> calculateDeploymentScore f l c m \<and> calculateDeploymentScore f l c m \<le> 100"
proof -
  let ?s = "min (f * 10) 30 + max 0 (30 - l / 2) + max 0 (25 - c) + max 0 (15 - m / 2)"
  have "0 \<le> ?s" using assms by (simp add: min_def max_def)
  moreover have "?s \<le> 100" using assms by (simp add: min_def max_def)
  ultimately have "0 \<le> \<lfloor>?s\<rfloor> \<and> \<lfloor>?s\<rfloor> \<le> 100"
    by (simp add: floor_le_iff le_floor_iff)
  then show ?thesis by (simp add: calculateDeploymentScore_def Let_def)
qed

lemma quality_score_range:
  assumes "analyzeCodeQuality run = Inr q"
  shows "0 \<le> cq_score q \<and> cq_score q \<le> 100"
proof -
  obtain cs where q: "cq_score q = min \<lfloor>analyzeCommitMessages cs * 100\<rfloor> 100"
    using assms by (auto simp: analyzeCodeQuality_def await_def Let_def split: sum.splits)
  have "0 \<le> analyzeCommitMessages cs * 100" using analyzeCommitMessages_range [of cs] by simp
  then have "0 \<le> \<lfloor>analyzeCommitMessages cs * 100\<rfloor>" by (simp add: le_floor_iff)
  then show ?thesis unfolding q by simp
qed

lemma debt_score_range:
  assumes "analyzeTechnicalDebt depCount fix2 run now = Inr d"
  shows "0 \<le> td_score d \<and> td_score d \<le> 100"
  using assms
  by (auto simp: analyzeTechnicalDebt_def await_def Let_def split: sum.splits)

lemma deployment_metrics_score_range:
  assumes "analyzeDeploymentMetrics fix2 run now = Inr d"
  shows "0 \<le> dm_score d \<and> dm_score d \<le> 100"
proof -
  from deployment_parts [OF assms] obtain wr rels prs cs freq rate where
    f: "calculateDeploymentFrequency now rels wr = Inr freq" and
    c: "calculateChangeFailureRate wr cs = Inr rate" and
    s: "dm_score d = calculateDeploymentScore freq (calculateLeadTime now prs rels cs) rate
                       (calculateMeanTimeToRecover now cs prs)"
    by blast
  show ?thesis
    unfolding s
    by (rule deployment_score_range
        [OF frequency_nonneg [OF f] leadTime_nonneg failureRate_nonneg [OF c] recover_nonneg])
qed

lemma overall_range:
  fixes a b c :: int
  assumes "0 \<le> a" "a \<le> 100" "0 \<le> b" "b \<le> 100" "0 \<le> c" "c \<le> 100"
  shows "0 \<le> \<lfloor>real_of_int a * (3 / 10) + real_of_int b * (4 / 10) + real_of_int c * (3 / 10)\<rfloor>
       \<and> \<lfloor>real_of_int a * (3 / 10) + real_of_int b * (4 / 10) + real_of_int c * (3 / 10)\<rfloor> \<le> 100"
proof -
  let ?x = "real_of_int a * (3 / 10) + real_of_int b * (4 / 10) + real_of_int c * (3 / 10)"
  have "0 \<le> ?x" using assms by simp
  moreover have "?x \<le> 100" using assms by simp
  ultimately show ?thesis by (simp add: floor_le_iff le_floor_iff)
qed

text \<open>
  C3. In every report that is generated, the code-quality score, the technical-debt
  score, the deployment score and the overall score are integers between 0 and 100.
\<close>

theorem scores_in_range:
  assumes "generateHealthReport depCount fix2 run now rnd = Inr r"
  shows "0 \<le> cq_score (codeQuality r) \<and> cq_score (codeQuality r) \<le> 100 \<and>
         0 \<le> td_score (technicalDebt r) \<and> td_score (technicalDebt r) \<le> 100 \<and>
         0 \<le> dm_score (deploymentMetrics r) \<and> dm_score (deploymentMetrics r) \<le> 100 \<and>
         0 \<le> overallScore r \<and> overallScore r \<le> 100"
proof -
  note qr = quality_score_range [OF report_parts(2) [OF assms]]
  note dr = debt_score_range [OF report_parts(3) [OF assms]]
  note mr = deployment_metrics_score_range [OF report_parts(4) [OF assms]]
  have "0 \<le> overallScore r \<and> overallScore r \<le> 100"
    unfolding report_parts(6) [OF assms] using qr dr mr by (intro overall_range) simp_all
  then show ?thesis using qr dr mr by simp
qed

theorem scores_in_range_witness:
  "generateHealthReport no_manifest exact_fix2 demo_run 1703801600000 (1 / 2)
     = Inr (demo_report 1703801600000 (demo_debt 69 (13 / 50) 1 5 0) 65 65) \<and>
   cq_score (codeQuality (demo_report 1703801600000 (demo_debt 69 (13 / 50) 1 5 0) 65 65)) = 90 \<and>
   td_score (technicalDebt (demo_report 1703801600000 (demo_debt 69 (13 / 50) 1 5 0) 65 65)) = 69 \<and>
   dm_score (deploymentMetrics
     (demo_report 1703801600000 (demo_debt 69 (13 / 50) 1 5 0) 65 65)) = 36 \<and>
   overallScore (demo_report 1703801600000 (demo_debt 69 (13 / 50) 1 5 0) 65 65) = 65 \<and>
   0 \<le> overallScore (demo_report 1703801600000 (demo_debt 69 (13 / 50) 1 5 0) 65 65) \<and>
   overallScore (demo_report 1703801600000 (demo_debt 69 (13 / 50) 1 5 0) 65 65) \<le> 100"
  using demo_report_now scores_in_range [OF demo_report_now]
  by (simp add: demo_report_def demo_debt_def demo_deployment_def)

section \<open>Which failed requests fail the report\<close>


lemma deploy_named_isl: "isl (deploy_named run) = (run_name run = None)"
  by (simp add: deploy_named_def split: option.splits)















section \<open>Two runs over the same fetched inputs\<close>

lemma getRepository_payload:
  "getRepository (client run c) now = Inr repo \<Longrightarrow> get_repo (run_forge run) = Inr repo"
  by (auto simp: getRepository_def client_def through_def new_GitHubService_def
      split: sum.splits option.splits)

lemma getRepository_cases:
  "get_repo (run_forge run) = Inr repo \<Longrightarrow>
   getRepository (client run c) now =
     (case run_outage run c Repo of
        None \<Rightarrow> Inr repo
      | Some e \<Rightarrow> Inl (checkRateLimitError now e))"
  by (simp add: getRepository_def client_def through_def new_GitHubService_def
      split: option.splits)

lemma metrics_clock:
  "analyzeCodeMetrics run now = Inr m \<Longrightarrow> analyzeCodeMetrics run now' = Inr m"
proof -
  assume a: "analyzeCodeMetrics run now = Inr m"
  then obtain langs repo where
    l: "getLanguages (client run Metrics) = Inr langs" and
    r: "getRepository (client run Metrics) now = Inr repo"
    by (auto simp: analyzeCodeMetrics_def await_def split: sum.splits)
  have "getRepository (client run Metrics) now' = Inr repo"
    using r getRepository_cases [OF getRepository_payload [OF r], of Metrics]
    by (simp split: option.splits)
  with a l r show ?thesis by (simp add: analyzeCodeMetrics_def await_def)
qed

lemma months_of_age:
  "calculateRepositoryAge now (repo_created_at repo)
     = calculateRepositoryAge now' (repo_created_at repo)
   \<Longrightarrow> months_of now repo = months_of now' repo"
  by (simp add: months_of_def)

lemma duplications_age:
  assumes "get_repo (run_forge run) = Inr repo"
    and "calculateRepositoryAge now (repo_created_at repo)
         = calculateRepositoryAge now' (repo_created_at repo)"
  shows "calculateDuplications run now = calculateDuplications run now'"
  using assms(2)
  by (cases "getLanguages (client run Duplications)"; cases "run_outage run Duplications Repo")
     (simp_all add: calculateDuplications_def getRepository_cases [OF assms(1)] await_def
       Let_def)

lemma repo_step_age:
  assumes "get_repo (run_forge run) = Inr repo"
    and "calculateRepositoryAge now (repo_created_at repo)
         = calculateRepositoryAge now' (repo_created_at repo)"
  shows "(case await (getRepository (client run c) now) (\<lambda>r. Inr (f (months_of now r)))
          of Inr n \<Rightarrow> g n | Inl e \<Rightarrow> d)
       = (case await (getRepository (client run c) now') (\<lambda>r. Inr (f (months_of now' r)))
          of Inr n \<Rightarrow> g n | Inl e \<Rightarrow> d)"
  using months_of_age [OF assms(2)]
  by (cases "run_outage run c Repo")
     (simp_all add: getRepository_cases [OF assms(1)] await_def)

lemma dep_files_loop_age:
  assumes "get_repo (run_forge run) = Inr repo"
    and "calculateRepositoryAge now (repo_created_at repo)
         = calculateRepositoryAge now' (repo_created_at repo)"
  shows "dep_files_loop run now c fs = dep_files_loop run now' c fs"
proof (induction fs)
  case Nil
  show ?case by simp
next
  case (Cons f rest)
  show ?case
    using months_of_age [OF assms(2)] Cons.IH
    by (cases "getFileContent (client run (Manifest f)) f";
        cases "run_outage run (Manifest f) Repo")
       (simp_all add: getRepository_cases [OF assms(1)] await_def)
qed

lemma outdated_age:
  assumes "get_repo (run_forge run) = Inr repo"
    and "calculateRepositoryAge now (repo_created_at repo)
         = calculateRepositoryAge now' (repo_created_at repo)"
  shows "calculateOutdatedDependencies depCount run now
         = calculateOutdatedDependencies depCount run now'"
proof -
  note m = months_of_age [OF assms(2)]
  note l = dep_files_loop_age [OF assms]
  note g = getRepository_cases [OF assms(1)]
  show ?thesis
    by (cases "getLanguages (client run Outdated)";
        cases "getFileContent (client run (Manifest ''package.json'')) ''package.json''";
        cases "getFileContent (client run (Manifest ''requirements.txt'')) ''requirements.txt''";
        cases "run_outage run (Manifest ''package.json'') Repo";
        cases "run_outage run (Manifest ''requirements.txt'') Repo")
       (simp_all add: calculateOutdatedDependencies_def g m l await_def Let_def
         split: option.splits)
qed

lemma debt_age:
  assumes "analyzeTechnicalDebt depCount fix2 run now = Inr d"
    and "analyzeTechnicalDebt depCount fix2 run now' = Inr d'"
    and "get_repo (run_forge run) = Inr repo"
    and "calculateRepositoryAge now (repo_created_at repo)
         = calculateRepositoryAge now' (repo_created_at repo)"
  shows "d = d'"
proof -
  note e = duplications_age [OF assms(3,4)] outdated_age [OF assms(3,4), of depCount]
  from assms(1) obtain r where r: "getRepository (client run Debt) now = Inr r"
    by (auto simp: analyzeTechnicalDebt_def await_def split: sum.splits)
  from assms(2) obtain r' where r': "getRepository (client run Debt) now' = Inr r'"
    by (auto simp: analyzeTechnicalDebt_def await_def split: sum.splits)
  have "analyzeTechnicalDebt depCount fix2 run now = analyzeTechnicalDebt depCount fix2 run now'"
    unfolding analyzeTechnicalDebt_def r r' e by (simp add: await_def)
  with assms(1,2) show ?thesis by simp
qed

text \<open>
  C5, as the code has it. Two runs over the same forge, at any two clock readings and
  with any two random draws, that both return a report agree on the code metrics and on
  the code quality; they agree on the technical debt whenever the repository's age in
  days, which the run computes from the clock, is the same in both.
\<close>

theorem report_determinism:
  assumes "generateHealthReport depCount fix2 run now rnd = Inr r"
    and "generateHealthReport depCount fix2 run now' rnd' = Inr r'"
  shows "codeMetrics r = codeMetrics r' \<and> codeQuality r = codeQuality r' \<and>
         (calculateRepositoryAge now (repo_created_at (repository r)) =
          calculateRepositoryAge now' (repo_created_at (repository r'))
          \<longrightarrow> technicalDebt r = technicalDebt r')"
proof -
  note a = report_parts [OF assms(1)]
  note b = report_parts [OF assms(2)]
  have g: "get_repo (run_forge run) = Inr (repository r)"
    using a(5) by (rule getRepository_payload)
  have "get_repo (run_forge run) = Inr (repository r')"
    using b(5) by (rule getRepository_payload)
  with g have same_repo: "repository r' = repository r" by simp
  have "codeMetrics r' = codeMetrics r" using metrics_clock [OF a(1), of now'] b(1) by simp
  moreover have "codeQuality r' = codeQuality r" using a(2) b(2) by simp
  moreover have "technicalDebt r = technicalDebt r'"
    if "calculateRepositoryAge now (repo_created_at (repository r))
        = calculateRepositoryAge now' (repo_created_at (repository r))"
    using debt_age [OF a(3) b(3) g that] .
  ultimately show ?thesis using same_repo by simp
qed

theorem report_determinism_witness:
  "generateHealthReport no_manifest exact_fix2 demo_run 1703801599000 (1 / 4)
     = Inr (demo_report 1703801599000 (demo_debt 69 (13 / 50) 1 5 0) 65 57) \<and>
   generateHealthReport no_manifest exact_fix2 demo_run 1703801600000 (1 / 2)
     = Inr (demo_report 1703801600000 (demo_debt 69 (13 / 50) 1 5 0) 65 65) \<and>
   calculateRepositoryAge 1703801599000 (repo_created_at (repository
     (demo_report 1703801599000 (demo_debt 69 (13 / 50) 1 5 0) 65 57))) = 44 \<and>
   calculateRepositoryAge 1703801600000 (repo_created_at (repository
     (demo_report 1703801600000 (demo_debt 69 (13 / 50) 1 5 0) 65 65))) = 44 \<and>
   codeMetrics (demo_report 1703801599000 (demo_debt 69 (13 / 50) 1 5 0) 65 57)
     = codeMetrics (demo_report 1703801600000 (demo_debt 69 (13 / 50) 1 5 0) 65 65) \<and>
   codeQuality (demo_report 1703801599000 (demo_debt 69 (13 / 50) 1 5 0) 65 57)
     = codeQuality (demo_report 1703801600000 (demo_debt 69 (13 / 50) 1 5 0) 65 65) \<and>
   technicalDebt (demo_report 1703801599000 (demo_debt 69 (13 / 50) 1 5 0) 65 57)
     = technicalDebt (demo_report 1703801600000 (demo_debt 69 (13 / 50) 1 5 0) 65 65) \<and>
   benchmarkScore (demo_report 1703801599000 (demo_debt 69 (13 / 50) 1 5 0) 65 57)
     \<noteq> benchmarkScore (demo_report 1703801600000 (demo_debt 69 (13 / 50) 1 5 0) 65 65)"
proof -
  have a: "generateHealthReport no_manifest exact_fix2 demo_run 1703801599000 (1 / 4)
             = Inr (demo_report 1703801599000 (demo_debt 69 (13 / 50) 1 5 0) 65 57)"
    using demo_report_44 [OF demo_age(1), of "1 / 4"] by simp
  have ages:
    "calculateRepositoryAge 1703801599000 (repo_created_at (repository
       (demo_report 1703801599000 (demo_debt 69 (13 / 50) 1 5 0) 65 57))) = 44"
    "calculateRepositoryAge 1703801600000 (repo_created_at (repository
       (demo_report 1703801600000 (demo_debt 69 (13 / 50) 1 5 0) 65 65))) = 44"
    using demo_age by (simp_all add: demo_report_def)
  show ?thesis
    using report_determinism [OF a demo_report_now] a demo_report_now ages
    by (simp add: demo_report_def)
qed

text \<open>
  In the older copy of the estimator the technical debt follows the random draws: at the
  same clock reading, the draws 0 and one half give the test coverages 20 and 50.
\<close>

lemma legacy_debt_follows_random:
  "map_sum id (\<lambda>d. testCoverage (td_metrics d))
     (legacy_analyzeTechnicalDebt fix2 demo_forge 1703801600000 0 0) = Inr 20 \<and>
   map_sum id (\<lambda>d. testCoverage (td_metrics d))
     (legacy_analyzeTechnicalDebt fix2 demo_forge 1703801600000 (1 / 2) 0) = Inr 50"
  by (simp add: legacy_analyzeTechnicalDebt_def demo_forge_def Let_def)

text \<open>
  The claim as stated fails: two runs over the same forge, one millisecond apart, in
  which the repository turns 45 days old, report different duplication percentages.
\<close>

theorem debt_depends_on_clock:
  "generateHealthReport no_manifest exact_fix2 demo_run 1703801600000 (1 / 2)
     = Inr (demo_report 1703801600000 (demo_debt 69 (13 / 50) 1 5 0) 65 65) \<and>
   generateHealthReport no_manifest exact_fix2 demo_run 1703801600001 (1 / 2)
     = Inr (demo_report 1703801600001 (demo_debt 69 (13 / 50) 2 5 0) 65 65) \<and>
   technicalDebt (demo_report 1703801600000 (demo_debt 69 (13 / 50) 1 5 0) 65 65)
     \<noteq> technicalDebt (demo_report 1703801600001 (demo_debt 69 (13 / 50) 2 5 0) 65 65)"
proof -
  have b: "generateHealthReport no_manifest exact_fix2 demo_run 1703801600001 (1 / 2)
             = Inr (demo_report 1703801600001 (demo_debt 69 (13 / 50) 2 5 0) 65 65)"
    using demo_report_45 [OF demo_age(3), of "1 / 2"] by simp
  show ?thesis using demo_report_now b by (simp add: demo_report_def demo_debt_def)
qed

section \<open>Deployment frequency\<close>

text \<open>
  What the code has of the claim: without releases and without workflow runs the
  frequency is 0, and a run is counted when its conclusion is \<open>success\<close> and its
  lower-cased name contains \<open>deploy\<close>, \<open>release\<close> or \<open>production\<close>.
\<close>

lemma frequency_zero_without_deployments:
  "workflow_runs wr = [] \<Longrightarrow> calculateDeploymentFrequency now [] wr = Inr 0"
  by (simp add: calculateDeploymentFrequency_def await_def Let_def)

text \<open>
  The repository has no part in the deployment metrics: whatever the forge answers to
  the repository request, they are the same.
\<close>

lemma deployment_ignores_repository:
  "analyzeDeploymentMetrics fix2 (run\<lparr>run_forge := (run_forge run)\<lparr>get_repo := answer\<rparr>\<rparr>) now
     = analyzeDeploymentMetrics fix2 run now"
proof -
  let ?run = "run\<lparr>run_forge := (run_forge run)\<lparr>get_repo := answer\<rparr>\<rparr>"
  have e: "getWorkflowRuns (client ?run Deployment) = getWorkflowRuns (client run Deployment)"
    "getReleases (client ?run Deployment) 50 = getReleases (client run Deployment) 50"
    "getPullRequests (client ?run Deployment) Closed 50
       = getPullRequests (client run Deployment) Closed 50"
    "getCommits (client ?run Deployment) 100 = getCommits (client run Deployment) 100"
    by (simp_all add: client_def through_def new_GitHubService_def getWorkflowRuns_def
        getReleases_def getPullRequests_def getCommits_def split: sum.splits)
  show ?thesis unfolding analyzeDeploymentMetrics_def e by (rule refl)
qed

text \<open>The older copy divides by the age of the fetched repository.\<close>

lemma legacy_frequency_of_repository_age:
  "legacy_frequency young_clock young_repo \<lparr>workflow_runs = [], total_count = 4\<rparr> = 2"
  by (simp add: legacy_frequency_def young_age Let_def)

text \<open>
  C7 at a failing input. The repository is two weeks old and has four releases, two per
  week of its age. \<^const>\<open>calculateDeploymentFrequency\<close> counts the weeks since
  1 January 2020 and returns 4 / 356; the report carries that value, formatted, with the
  deployment score 36 and the advice to deploy more often.
\<close>

theorem frequency_ignores_repository_age:
  "getRepository (client young_run Report) young_clock = Inr young_repo \<and>
   calculateRepositoryAge young_clock (repo_created_at young_repo) = 14 \<and>
   getReleases (client young_run Deployment) 50 = Inr four_releases \<and>
   length four_releases = 4 \<and>
   getWorkflowRuns (client young_run Deployment) = Inr no_runs \<and>
   spec_frequency young_clock young_repo four_releases no_runs = 2 \<and>
   calculateRepositoryAge young_clock fixed_created_at = 2492 \<and>
   calculateDeploymentFrequency young_clock four_releases no_runs = Inr (4 / 356) \<and>
   analyzeDeploymentMetrics fix2 young_run young_clock
     = Inr (demo_deployment (fix2 (4 / 356)))"
  using young_fetches(1) [of Report young_clock] young_fetches(2) [of Deployment]
    young_fetches(3) [of Deployment 50] young_age young_spec_frequency young_frequency
    young_deployment_eq [of fix2]
  by (simp add: four_releases_def calculateRepositoryAge_def young_clock_def
      fixed_created_at_def)

section \<open>Refused and rate-limited requests\<close>



text \<open>
  \<^const>\<open>getRepository\<close> turns every rate-limit response into the rate-limit error;
  \<^const>\<open>getCommits\<close> never throws that error, whatever the forge answers.
\<close>

lemma getRepository_rate_limit:
  assumes "get_repo (octokit svc) = Inl e" and "err_status e = Some 403"
    and "message_says_rate_limit (err_message e) \<or> message_says_rate_limit (err_data_message e)"
  shows "getRepository svc now =
           Inl (GitHubRateLimitError
                  (case err_ratelimit_reset e of Some t \<Rightarrow> t * 1000 | None \<Rightarrow> now + 3600000)
                  (case err_ratelimit_limit e of Some l \<Rightarrow> l | None \<Rightarrow> 60)
                  (case err_ratelimit_remaining e of Some r \<Rightarrow> r | None \<Rightarrow> 0))"
  using assms by (simp add: getRepository_def checkRateLimitError_def)

lemma getCommits_never_rate_limit:
  "getCommits svc n \<noteq> Inl (GitHubRateLimitError t l r)"
  by (simp add: getCommits_def split: sum.splits)

text \<open>
  C1 at a failing input. The forge answers every request with status 403 and the
  message of an exceeded rate limit. \<^const>\<open>getRepository\<close> throws the rate-limit error
  with the reset time, the limit and the remaining quota of the response; the other
  operations rethrow the error of the request as it came, or return an empty result.
\<close>

theorem rate_limit_only_from_getRepository:
  "getRepository (new_GitHubService None limited_forge) 0
     = Inl (GitHubRateLimitError 1793149200000 60 0) \<and>
   getCommits (new_GitHubService None limited_forge) 30 = Inl (RequestError rate_limited) \<and>
   getLanguages (new_GitHubService None limited_forge) = Inl (RequestError rate_limited) \<and>
   getContributors (new_GitHubService None limited_forge) = Inl (RequestError rate_limited) \<and>
   getFileContent (new_GitHubService None limited_forge) ''package.json''
     = Inl (RequestError rate_limited) \<and>
   getReleases (new_GitHubService None limited_forge) 50 = Inl (RequestError rate_limited) \<and>
   getWorkflowRuns (new_GitHubService None limited_forge)
     = Inr \<lparr>workflow_runs = [], total_count = 0\<rparr> \<and>
   getPullRequests (new_GitHubService None limited_forge) All 50 = Inr [] \<and>
   getIssues (new_GitHubService None limited_forge) All 100 = Inr [] \<and>
   getDirectoryContents (new_GitHubService None limited_forge) [] = Inr [] \<and>
   getCodeFrequencyStats (new_GitHubService None limited_forge) = Inr []"
proof -
  have "checkRateLimitError 0 rate_limited = GitHubRateLimitError 1793149200000 60 0"
    by (simp add: checkRateLimitError_def message_says_rate_limit_def rate_limited_def)
  moreover have "refused rate_limited"
    by (simp add: refused_def rate_limited_def)
  ultimately show ?thesis
    by (simp add: new_GitHubService_def limited_forge_def getRepository_def getCommits_def
        getLanguages_def getContributors_def getFileContent_def getReleases_def
        getWorkflowRuns_def getPullRequests_def getIssues_def getDirectoryContents_def
        getCodeFrequencyStats_def)
qed

end
